theory Spec2Isabelle
  imports Main "HOL-Library.Multiset" "HOL-Library.Sublist" "HOL-Library.Product_Lexorder"
begin

section \<open>Card and deck primitives (types/card.ts, lib/engine/deck.ts)\<close>

text \<open>
  Field names carry a short prefix of their record, since several interfaces of the
  program share field names (\<open>id\<close>, \<open>hand\<close>, \<open>players\<close>, ...). JavaScript numbers
  that hold card values, scores and chips are integers here; array indices are naturals,
  and the \<open>-1\<close> of \<open>findIndex\<close> and the \<open>undefined\<close> of \<open>find\<close> are \<open>None\<close>.
\<close>

datatype suit = hearts | diamonds | clubs | spades

datatype rank = RA | R2 | R3 | R4 | R5 | R6 | R7 | R8 | R9 | R10 | RJ | RQ | RK

record card =
  suit :: suit
  rank :: rank
  val :: int
  faceUp :: bool
  cid :: string

type_synonym Deck = "card list"

definition SUITS :: "suit list" where
  "SUITS = [hearts, diamonds, clubs, spades]"

definition RANKS :: "rank list" where
  "RANKS = [RA, R2, R3, R4, R5, R6, R7, R8, R9, R10, RJ, RQ, RK]"

fun getRankValue :: "rank \<Rightarrow> int" where
  "getRankValue RA = 1"
| "getRankValue R2 = 2"
| "getRankValue R3 = 3"
| "getRankValue R4 = 4"
| "getRankValue R5 = 5"
| "getRankValue R6 = 6"
| "getRankValue R7 = 7"
| "getRankValue R8 = 8"
| "getRankValue R9 = 9"
| "getRankValue R10 = 10"
| "getRankValue RJ = 11"
| "getRankValue RQ = 12"
| "getRankValue RK = 13"

text \<open>\<open>createCard\<close> asks \<open>uuidv4()\<close> for the identifier; the model takes it as an argument.\<close>

definition createCard :: "suit \<Rightarrow> rank \<Rightarrow> string \<Rightarrow> card" where
  "createCard s r i = \<lparr>suit = s, rank = r, val = getRankValue r, faceUp = False, cid = i\<rparr>"

text \<open>
  \<open>createDeck\<close>: the \<open>k\<close>-th call of \<open>uuidv4()\<close> (counted from 0) returns \<open>uuid k\<close>;
  the cards are pushed suit by suit, rank by rank.
\<close>

definition createDeck :: "(nat \<Rightarrow> string) \<Rightarrow> Deck" where
  "createDeck uuid =
     map (\<lambda>k. createCard (SUITS ! (k div 13)) (RANKS ! (k mod 13)) (uuid k)) [0..<52]"

text \<open>
  \<open>shuffleDeck\<close> (Fisher-Yates): for \<open>i\<close> from the last index down to 1 the source draws
  \<open>j = floor(Math.random() * (i + 1))\<close>, an index in \<open>0..i\<close>, and swaps the cards at
  \<open>i\<close> and \<open>j\<close>. The random source is the argument \<open>rnd\<close>; \<open>rnd i mod (i + 1)\<close> is
  the index drawn at step \<open>i\<close>.
\<close>

fun shuffleLoop :: "(nat \<Rightarrow> nat) \<Rightarrow> nat \<Rightarrow> card list \<Rightarrow> card list" where
  "shuffleLoop rnd 0 cards = cards"
| "shuffleLoop rnd (Suc i) cards =
     (let j = rnd (Suc i) mod (Suc i + 1)
      in shuffleLoop rnd i (cards[Suc i := cards ! j, j := cards ! Suc i]))"

definition shuffleDeck :: "(nat \<Rightarrow> nat) \<Rightarrow> Deck \<Rightarrow> Deck" where
  "shuffleDeck rnd deck = shuffleLoop rnd (length deck - 1) deck"

definition drawCards :: "Deck \<Rightarrow> nat \<Rightarrow> card list \<times> Deck" where
  "drawCards deck n = (take n deck, drop n deck)"

text \<open>\<open>xs.slice(from, to)\<close> for indices that are not negative.\<close>

definition slice :: "'a list \<Rightarrow> nat \<Rightarrow> nat \<Rightarrow> 'a list" where
  "slice xs from to = take (to - from) (drop from xs)"

text \<open>
  \<open>sortCards\<close>: \<open>Array.prototype.sort\<close> is stable; the comparator orders by the index of
  the suit in \<open>SUITS\<close>, then by value.
\<close>

fun suitIndex :: "suit \<Rightarrow> nat" where
  "suitIndex hearts = 0"
| "suitIndex diamonds = 1"
| "suitIndex clubs = 2"
| "suitIndex spades = 3"

definition sortCards :: "card list \<Rightarrow> card list" where
  "sortCards cards = sort_key (\<lambda>c. (suitIndex (suit c), val c)) cards"

fun findIndex :: "('a \<Rightarrow> bool) \<Rightarrow> 'a list \<Rightarrow> nat option" where
  "findIndex P [] = None"
| "findIndex P (x # xs) =
     (if P x then Some 0 else map_option Suc (findIndex P xs))"

section \<open>Blackjack (lib/games/blackjack.ts)\<close>

record BlackjackPlayer =
  bp_id :: string
  bp_name :: string
  bp_hand :: "card list"
  bp_bet :: int
  bp_chips :: int
  bp_hasStood :: bool
  bp_hasBusted :: bool
  bp_hasBlackjack :: bool
  bp_isDealer :: bool

datatype BlackjackPhase = Betting | Dealing | Playing | DealerTurn | Settlement | Finished

record BlackjackState =
  bs_deck :: Deck
  bs_players :: "BlackjackPlayer list"
  bs_dealer :: BlackjackPlayer
  bs_currentPlayerIndex :: nat
  bs_phase :: BlackjackPhase
  bs_roundNumber :: nat

text \<open>
  The body of the \<open>for\<close> loop of \<open>getHandValue\<close> on the pair \<open>(value, aces)\<close>: an Ace
  adds 11 and counts as an ace, \<open>K\<close>, \<open>Q\<close>, \<open>J\<close> add 10, every other rank adds
  \<open>parseInt(rank, 10)\<close>. The loop calls \<open>parseInt\<close> on the ranks 2 to 10 only; on a
  letter it would give \<open>NaN\<close>, for which the last equation has 0.
\<close>

fun parseInt :: "rank \<Rightarrow> int" where
  "parseInt R2 = 2"
| "parseInt R3 = 3"
| "parseInt R4 = 4"
| "parseInt R5 = 5"
| "parseInt R6 = 6"
| "parseInt R7 = 7"
| "parseInt R8 = 8"
| "parseInt R9 = 9"
| "parseInt R10 = 10"
| "parseInt r = 0"

definition addCard :: "int \<times> nat \<Rightarrow> card \<Rightarrow> int \<times> nat" where
  "addCard acc c =
     (case acc of (value, aces) \<Rightarrow>
        if rank c = RA then (value + 11, aces + 1)
        else if rank c \<in> {RK, RQ, RJ} then (value + 10, aces)
        else (value + parseInt (rank c), aces))"

text \<open>The \<open>while (value > 21 && aces > 0)\<close> loop.\<close>

fun adjustAces :: "int \<Rightarrow> nat \<Rightarrow> int \<times> nat" where
  "adjustAces value 0 = (value, 0)"
| "adjustAces value (Suc aces) =
     (if value > 21 then adjustAces (value - 10) aces else (value, Suc aces))"

record HandValue =
  hv_value :: int
  hv_isSoft :: bool

definition getHandValue :: "card list \<Rightarrow> HandValue" where
  "getHandValue hand =
     (case foldl addCard (0, 0) hand of (value0, aces0) \<Rightarrow>
        (case adjustAces value0 aces0 of (value, aces) \<Rightarrow>
           \<lparr>hv_value = value, hv_isSoft = (aces > 0 \<and> value \<le> 21)\<rparr>))"

definition isBlackjack :: "card list \<Rightarrow> bool" where
  "isBlackjack hand \<longleftrightarrow> length hand = 2 \<and> hv_value (getHandValue hand) = 21"

definition isBusted :: "card list \<Rightarrow> bool" where
  "isBusted hand \<longleftrightarrow> hv_value (getHandValue hand) > 21"

definition findNextActivePlayer :: "BlackjackPlayer list \<Rightarrow> nat \<Rightarrow> nat option" where
  "findNextActivePlayer players currentIndex =
     List.find (\<lambda>i. \<not> bp_hasStood (players ! i) \<and> \<not> bp_hasBusted (players ! i))
       [currentIndex + 1 ..< length players]"

text \<open>
  An action returns \<open>null\<close> (\<open>Rejected\<close>) or a new state. \<open>drawCards\<close> on an empty deck
  returns no card, and the source goes on with \<open>{...undefined, faceUp: true}\<close>, an
  object without suit, rank or id, which the type \<open>card\<close> excludes: \<open>UndefinedCard\<close>.
  Reading a property of \<open>undefined\<close> throws: \<open>TypeError\<close>.
\<close>

datatype error = Rejected | UndefinedCard | TypeError

definition hit :: "BlackjackState \<Rightarrow> string \<Rightarrow> error + BlackjackState" where
  "hit state playerId =
     (case findIndex (\<lambda>p. bp_id p = playerId) (bs_players state) of
        None \<Rightarrow> Inl Rejected
      | Some playerIndex \<Rightarrow>
          let player = bs_players state ! playerIndex in
          if bp_hasStood player \<or> bp_hasBusted player then Inl Rejected
          else
            (case drawCards (bs_deck state) 1 of (drawnCards, remainingDeck) \<Rightarrow>
               (case drawnCards of
                  [] \<Rightarrow> Inl UndefinedCard
                | c # _ \<Rightarrow>
                    let newHand = bp_hand player @ [c\<lparr>faceUp := True\<rparr>];
                        busted = isBusted newHand;
                        newPlayers = (bs_players state)[playerIndex :=
                          player\<lparr>bp_hand := newHand, bp_hasBusted := busted,
                                 bp_hasStood := (if busted then True else bp_hasStood player)\<rparr>]
                    in
                    if busted then
                      (case findNextActivePlayer newPlayers (bs_currentPlayerIndex state) of
                         None \<Rightarrow>
                           Inr (state\<lparr>bs_deck := remainingDeck, bs_players := newPlayers,
                                      bs_phase := DealerTurn\<rparr>)
                       | Some next \<Rightarrow>
                           Inr (state\<lparr>bs_deck := remainingDeck, bs_players := newPlayers,
                                      bs_currentPlayerIndex := next\<rparr>))
                    else
                      Inr (state\<lparr>bs_deck := remainingDeck, bs_players := newPlayers\<rparr>))))"

subsection \<open>Blackjack: specification-side notions and a sample state\<close>

text \<open>
  The points of a card as the rules give them (an Ace 11, a face card 10, a number card
  its number), and the number of Aces that must fall back from 11 to 1: none if the raw
  total is at most 21, otherwise the least number that brings the total to 21 or below,
  capped by the number of Aces held.
\<close>

definition cardPoints :: "card \<Rightarrow> int" where
  "cardPoints c =
     (if rank c = RA then 11 else if rank c = RK \<or> rank c = RQ \<or> rank c = RJ then 10
      else getRankValue (rank c))"

definition demotedAces :: "int \<Rightarrow> nat \<Rightarrow> nat" where
  "demotedAces raw n = (if raw \<le> 21 then 0 else min n (nat ((raw - 12) div 10)))"

definition bjPlayer :: "string \<Rightarrow> BlackjackPlayer" where
  "bjPlayer i = \<lparr>bp_id = i, bp_name = i, bp_hand = [], bp_bet = 10, bp_chips = 1000,
     bp_hasStood = False, bp_hasBusted = False, bp_hasBlackjack = False, bp_isDealer = False\<rparr>"

definition bjExample :: BlackjackState where
  "bjExample = \<lparr>bs_deck = [createCard spades R7 ''u0'', createCard hearts R9 ''u1''],
     bs_players = [bjPlayer ''player-0'', bjPlayer ''player-1''],
     bs_dealer = (bjPlayer ''dealer'')\<lparr>bp_isDealer := True\<rparr>,
     bs_currentPlayerIndex = 0, bs_phase = Playing, bs_roundNumber = 1\<rparr>"

section \<open>Solitaire (lib/games/solitaire.ts)\<close>

text \<open>The start time is a time stamp, a number here.\<close>

record SolitaireState =
  ss_tableau :: "card list list"
  ss_foundation :: "card list list"
  ss_stock :: "card list"
  ss_waste :: "card list"
  ss_moves :: nat
  ss_startTime :: nat
  ss_isWon :: bool

definition drawFromStock :: "SolitaireState \<Rightarrow> SolitaireState" where
  "drawFromStock state =
     (if length (ss_stock state) = 0 then
        state\<lparr>ss_stock := rev (map (\<lambda>card. card\<lparr>faceUp := False\<rparr>) (ss_waste state)),
              ss_waste := [],
              ss_moves := ss_moves state + 1\<rparr>
      else
        let card = ss_stock state ! 0 in
        state\<lparr>ss_stock := drop 1 (ss_stock state),
              ss_waste := ss_waste state @ [card\<lparr>faceUp := True\<rparr>],
              ss_moves := ss_moves state + 1\<rparr>)"

subsection \<open>Solitaire: a sample state\<close>

text \<open>A state whose stock holds two cards, \<open>a\<close> on top of \<open>b\<close>, and whose waste is empty.\<close>

definition solExample :: SolitaireState where
  "solExample = \<lparr>ss_tableau = [], ss_foundation = [[], [], [], []],
     ss_stock = [createCard spades R7 ''a'', createCard hearts R9 ''b''],
     ss_waste = [], ss_moves = 0, ss_startTime = 0, ss_isWon = False\<rparr>"

section \<open>Hearts (lib/games/hearts.ts)\<close>

datatype PlayerType = human | computer

record HeartsPlayer =
  hp_id :: string
  hp_name :: string
  hp_type :: PlayerType
  hp_hand :: "card list"
  hp_tricks :: "card list list"
  hp_score :: int
  hp_roundScore :: int
  hp_passedCards :: "card list"
  hp_receivedCards :: "card list"

record TrickEntry =
  te_playerId :: string
  te_card :: card

datatype HeartsPhase = H_passing | H_playing | H_roundEnd | H_gameEnd

datatype PassDirection = PassLeft | PassRight | PassAcross | PassNone

record HeartsState =
  hs_players :: "HeartsPlayer list"
  hs_currentPlayerIndex :: nat
  hs_currentTrick :: "TrickEntry list"
  hs_leadSuit :: "suit option"
  hs_heartsBroken :: bool
  hs_phase :: HeartsPhase
  hs_passDirection :: PassDirection
  hs_roundNumber :: nat
  hs_gameScore :: int

definition PASS_DIRECTIONS :: "PassDirection list" where
  "PASS_DIRECTIONS = [PassLeft, PassRight, PassAcross, PassNone]"

definition findTwoOfClubs :: "HeartsPlayer list \<Rightarrow> nat" where
  "findTwoOfClubs players =
     (case findIndex (\<lambda>p. list_ex (\<lambda>c. suit c = clubs \<and> rank c = R2) (hp_hand p)) players of
        Some i \<Rightarrow> i
      | None \<Rightarrow> 0)"

text \<open>The body of the loop of \<open>calculateTrickPoints\<close>, and the loop.\<close>

definition addPoints :: "int \<Rightarrow> card \<Rightarrow> int" where
  "addPoints points c =
     (if suit c = hearts then points + 1
      else if suit c = spades \<and> rank c = RQ then points + 13
      else points)"

definition calculateTrickPoints :: "card list \<Rightarrow> int" where
  "calculateTrickPoints cards = foldl addPoints 0 cards"

text \<open>
  The winner loop of \<open>completeTrick\<close> on the pair \<open>(winnerIndex, highestValue)\<close>, which
  starts at \<open>(0, 0)\<close>; \<open>i\<close> is the index of the entry in the trick.
\<close>

fun winnerLoop :: "suit option \<Rightarrow> nat \<Rightarrow> TrickEntry list \<Rightarrow> nat \<times> int \<Rightarrow> nat \<times> int" where
  "winnerLoop leadSuit i [] acc = acc"
| "winnerLoop leadSuit i (e # es) (winnerIndex, highestValue) =
     (if Some (suit (te_card e)) = leadSuit \<and> val (te_card e) > highestValue
      then winnerLoop leadSuit (i + 1) es (i, val (te_card e))
      else winnerLoop leadSuit (i + 1) es (winnerIndex, highestValue))"

definition trickWinnerIndex :: "HeartsState \<Rightarrow> nat" where
  "trickWinnerIndex state = fst (winnerLoop (hs_leadSuit state) 0 (hs_currentTrick state) (0, 0))"

text \<open>
  \<open>startNewRound\<close> deals from \<open>shuffleDeck(createDeck())\<close>; the identifier source \<open>uuid\<close>
  and the random source \<open>rnd\<close> are arguments.
\<close>

definition hearts_startNewRound ::
  "(nat \<Rightarrow> string) \<Rightarrow> (nat \<Rightarrow> nat) \<Rightarrow> HeartsState \<Rightarrow> HeartsState" where
  "hearts_startNewRound uuid rnd state =
     (let deck = shuffleDeck rnd (createDeck uuid);
          newPlayers = map (\<lambda>(index, p).
              p\<lparr>hp_hand := sortCards (map (\<lambda>c. c\<lparr>faceUp := (hp_type p = human)\<rparr>)
                               (slice deck (index * 13) ((index + 1) * 13))),
                hp_tricks := [], hp_roundScore := 0, hp_passedCards := [],
                hp_receivedCards := []\<rparr>)
            (enumerate 0 (hs_players state));
          passDirectionIndex = hs_roundNumber state mod 4
      in state\<lparr>hs_players := newPlayers,
               hs_currentTrick := [],
               hs_leadSuit := None,
               hs_heartsBroken := False,
               hs_phase := (if PASS_DIRECTIONS ! passDirectionIndex = PassNone
                            then H_playing else H_passing),
               hs_passDirection := PASS_DIRECTIONS ! passDirectionIndex,
               hs_roundNumber := hs_roundNumber state + 1,
               hs_currentPlayerIndex := findTwoOfClubs newPlayers\<rparr>)"

text \<open>
  \<open>completeRound\<close>: \<open>find\<close> returns the first player whose round score is 26. The source
  adds to \<open>player.score\<close> in place; the model returns the updated players.
  \<open>Math.max\<close> of no argument is \<open>-Infinity\<close>, which reaches no threshold.
\<close>

definition completeRound ::
  "(nat \<Rightarrow> string) \<Rightarrow> (nat \<Rightarrow> nat) \<Rightarrow> HeartsState \<Rightarrow> HeartsState" where
  "completeRound uuid rnd state =
     (let newPlayers =
            (case List.find (\<lambda>p. hp_roundScore p = 26) (hs_players state) of
               Some moonShooter \<Rightarrow>
                 map (\<lambda>player.
                        if hp_id player = hp_id moonShooter
                        then player\<lparr>hp_score := hp_score player + 0\<rparr>
                        else player\<lparr>hp_score := hp_score player + 26\<rparr>)
                     (hs_players state)
             | None \<Rightarrow>
                 map (\<lambda>player. player\<lparr>hp_score := hp_score player + hp_roundScore player\<rparr>)
                     (hs_players state));
          reached =
            (case map hp_score newPlayers of
               [] \<Rightarrow> False
             | s # ss \<Rightarrow> fold max ss s \<ge> hs_gameScore state)
      in if reached then state\<lparr>hs_players := newPlayers, hs_phase := H_gameEnd\<rparr>
         else hearts_startNewRound uuid rnd (state\<lparr>hs_players := newPlayers\<rparr>))"

text \<open>
  \<open>completeTrick\<close>. Reading \<open>currentTrick[winnerIndex].playerId\<close> of an empty trick, and
  spreading \<open>newPlayers[-1]\<close> when no player has the winner's id, throw a
  \<open>TypeError\<close>.
\<close>

definition completeTrick ::
  "(nat \<Rightarrow> string) \<Rightarrow> (nat \<Rightarrow> nat) \<Rightarrow> HeartsState \<Rightarrow> error + HeartsState" where
  "completeTrick uuid rnd state =
     (let winnerIndex = trickWinnerIndex state in
      if winnerIndex \<ge> length (hs_currentTrick state) then Inl TypeError
      else
        let winnerId = te_playerId (hs_currentTrick state ! winnerIndex) in
        (case findIndex (\<lambda>p. hp_id p = winnerId) (hs_players state) of
           None \<Rightarrow> Inl TypeError
         | Some winnerPlayerIndex \<Rightarrow>
             let trickCards = map te_card (hs_currentTrick state);
                 winner = hs_players state ! winnerPlayerIndex;
                 newPlayers = (hs_players state)[winnerPlayerIndex :=
                     winner\<lparr>hp_tricks := hp_tricks winner @ [trickCards],
                            hp_roundScore := hp_roundScore winner + calculateTrickPoints trickCards\<rparr>];
                 roundComplete = list_all (\<lambda>p. length (hp_hand p) = 0) newPlayers
             in if roundComplete
                then Inr (completeRound uuid rnd (state\<lparr>hs_players := newPlayers\<rparr>))
                else Inr (state\<lparr>hs_players := newPlayers,
                                hs_currentTrick := [],
                                hs_leadSuit := None,
                                hs_currentPlayerIndex := winnerPlayerIndex\<rparr>)))"

subsection \<open>Hearts: a sample trick and the scoring step\<close>

text \<open>A trick led with the Ace of clubs; the two of clubs is the only other club.\<close>

definition trickExample :: HeartsState where
  "trickExample = \<lparr>hs_players = [], hs_currentPlayerIndex = 0,
     hs_currentTrick =
       [\<lparr>te_playerId = ''player-0'', te_card = createCard clubs RA ''c0''\<rparr>,
        \<lparr>te_playerId = ''player-1'', te_card = createCard hearts RK ''c1''\<rparr>,
        \<lparr>te_playerId = ''player-2'', te_card = createCard clubs R2 ''c2''\<rparr>,
        \<lparr>te_playerId = ''player-3'', te_card = createCard spades RQ ''c3''\<rparr>],
     hs_leadSuit = Some clubs, hs_heartsBroken = False, hs_phase = H_playing,
     hs_passDirection = PassLeft, hs_roundNumber = 1, hs_gameScore = 100\<rparr>"

text \<open>The players after the scoring step of \<open>completeRound\<close>.\<close>

definition scored :: "HeartsPlayer list \<Rightarrow> HeartsPlayer list" where
  "scored ps =
     (case List.find (\<lambda>p. hp_roundScore p = 26) ps of
        Some moonShooter \<Rightarrow>
          map (\<lambda>player.
                 if hp_id player = hp_id moonShooter
                 then player\<lparr>hp_score := hp_score player + 0\<rparr>
                 else player\<lparr>hp_score := hp_score player + 26\<rparr>) ps
      | None \<Rightarrow> map (\<lambda>player. player\<lparr>hp_score := hp_score player + hp_roundScore player\<rparr>) ps)"

definition roundExample :: HeartsState where
  "roundExample = \<lparr>hs_players =
       map (\<lambda>(i, s, r). \<lparr>hp_id = i, hp_name = i, hp_type = computer, hp_hand = [],
              hp_tricks = [], hp_score = s, hp_roundScore = r, hp_passedCards = [],
              hp_receivedCards = []\<rparr>)
         [(''player-0'', 10, 26), (''player-1'', 20, 0), (''player-2'', 30, 0),
          (''player-3'', 40, 0)],
     hs_currentPlayerIndex = 0, hs_currentTrick = [], hs_leadSuit = None,
     hs_heartsBroken = True, hs_phase = H_playing, hs_passDirection = PassLeft,
     hs_roundNumber = 1, hs_gameScore = 100\<rparr>"

section \<open>President (module lib/games/asshole)\<close>

text \<open>
  The sources of the modules \<open>asshole\<close> and \<open>poker\<close> follow the Hearts engine in the file
  \<open>lib/games/hearts.ts\<close> (from line 409 and from line 790).
\<close>

datatype SocialRank = President | VicePresident | Neutral | ViceAsshole | Asshole

record AssholePlayer =
  ap_id :: string
  ap_name :: string
  ap_type :: PlayerType
  ap_hand :: "card list"
  ap_rank :: "SocialRank option"
  ap_finishOrder :: "nat option"
  ap_hasPassed :: bool

datatype AssholePhase = A_trading | A_playing | A_roundEnd | A_gameEnd

record AssholeState =
  as_players :: "AssholePlayer list"
  as_currentPlayerIndex :: nat
  as_pile :: "card list list"
  as_lastPlayedBy :: "string option"
  as_currentRank :: "int option"
  as_currentCount :: nat
  as_consecutivePasses :: nat
  as_phase :: AssholePhase
  as_roundNumber :: nat
  as_finishCount :: nat

text \<open>\<open>CARD_RANKS\<close>: 3 is lowest, the Ace is 14 and 2 is highest.\<close>

fun CARD_RANKS :: "rank \<Rightarrow> int" where
  "CARD_RANKS R3 = 3"
| "CARD_RANKS R4 = 4"
| "CARD_RANKS R5 = 5"
| "CARD_RANKS R6 = 6"
| "CARD_RANKS R7 = 7"
| "CARD_RANKS R8 = 8"
| "CARD_RANKS R9 = 9"
| "CARD_RANKS R10 = 10"
| "CARD_RANKS RJ = 11"
| "CARD_RANKS RQ = 12"
| "CARD_RANKS RK = 13"
| "CARD_RANKS RA = 14"
| "CARD_RANKS R2 = 15"

definition getCardRank :: "card \<Rightarrow> int" where
  "getCardRank c = CARD_RANKS (rank c)"

text \<open>\<open>`player-${index}`\<close>: the decimal digits of the index.\<close>

fun digits :: "nat \<Rightarrow> string" where
  "digits n = (if n < 10 then [char_of (48 + n)] else digits (n div 10) @ [char_of (48 + n mod 10)])"

declare digits.simps [simp del]

definition playerIdOf :: "nat \<Rightarrow> string" where
  "playerIdOf index = ''player-'' @ digits index"

text \<open>
  \<open>createAssholeGame\<close> deals from \<open>shuffleDeck(createDeck())\<close>. With no player name
  \<open>Math.floor(52 / 0)\<close> is \<open>Infinity\<close>, which no player uses.
\<close>

definition createAssholeGame ::
  "(nat \<Rightarrow> string) \<Rightarrow> (nat \<Rightarrow> nat) \<Rightarrow> string list \<Rightarrow> PlayerType list \<Rightarrow> AssholeState" where
  "createAssholeGame uuid rnd playerNames playerTypes =
     (let deck = shuffleDeck rnd (createDeck uuid);
          playerCount = length playerNames;
          cardsPerPlayer = 52 div playerCount;
          players = map (\<lambda>(index, name).
              \<lparr>ap_id = playerIdOf index, ap_name = name,
               ap_type = (if index < length playerTypes then playerTypes ! index else computer),
               ap_hand = sortCards (map (\<lambda>c. c\<lparr>faceUp := True\<rparr>)
                           (slice deck (index * cardsPerPlayer) ((index + 1) * cardsPerPlayer))),
               ap_rank = None, ap_finishOrder = None, ap_hasPassed = False\<rparr>)
            (enumerate 0 playerNames);
          starterIndex =
            findIndex (\<lambda>p. list_ex (\<lambda>c. suit c = clubs \<and> rank c = R3) (ap_hand p)) players
      in \<lparr>as_players = players,
          as_currentPlayerIndex = (case starterIndex of Some i \<Rightarrow> i | None \<Rightarrow> 0),
          as_pile = [], as_lastPlayedBy = None, as_currentRank = None, as_currentCount = 0,
          as_consecutivePasses = 0, as_phase = A_playing, as_roundNumber = 1,
          as_finishCount = 0\<rparr>)"

definition asshole_isValidPlay :: "AssholeState \<Rightarrow> string \<Rightarrow> card list \<Rightarrow> bool" where
  "asshole_isValidPlay state pid cards =
     (case List.find (\<lambda>p. ap_id p = pid) (as_players state) of
        None \<Rightarrow> False
      | Some player \<Rightarrow>
          (case cards of
             [] \<Rightarrow> False
           | c0 # _ \<Rightarrow>
               let rank = getCardRank c0 in
               if \<not> list_all (\<lambda>c. getCardRank c = rank) cards then False
               else if \<not> list_all (\<lambda>card. list_ex (\<lambda>h. cid h = cid card) (ap_hand player)) cards
                 then False
               else (case as_currentRank state of
                       None \<Rightarrow> True
                     | Some currentRank \<Rightarrow>
                         if length cards \<noteq> as_currentCount state then False
                         else if rank \<le> currentRank then False
                         else True)))"

text \<open>
  The \<open>while\<close> loop of \<open>findNextPlayer\<close> on \<open>(next, attempts)\<close>. With no player,
  \<open>(currentIndex + 1) % 0\<close> is \<open>NaN\<close> and \<open>players[NaN].hand\<close> throws.
\<close>

function nextLoop :: "AssholePlayer list \<Rightarrow> nat \<Rightarrow> nat \<Rightarrow> nat" where
  "nextLoop players next attempts =
     (if length (ap_hand (players ! next)) = 0 \<and> attempts < length players
      then nextLoop players ((next + 1) mod length players) (attempts + 1)
      else next)"
  by pat_completeness auto
termination
  by (relation "measure (\<lambda>(players, next, attempts). length players - attempts)") auto

declare nextLoop.simps [simp del]

text \<open>
  \<open>a % n\<close> of JavaScript for an integer \<open>a\<close> and \<open>n > 0\<close>: the remainder has the sign of
  \<open>a\<close>. \<open>findNextPlayer\<close> starts at \<open>(currentIndex + 1) % players.length\<close>; when that is
  negative, \<open>players[next]\<close> is \<open>undefined\<close> and reading its hand throws.
\<close>

definition jsRem :: "int \<Rightarrow> nat \<Rightarrow> int" where
  "jsRem a n = (if a \<ge> 0 then a mod int n else - ((- a) mod int n))"

definition findNextPlayer :: "AssholePlayer list \<Rightarrow> int \<Rightarrow> error + nat" where
  "findNextPlayer players currentIndex =
     (if players = [] then Inl TypeError
      else
        let start = jsRem (currentIndex + 1) (length players) in
        if start < 0 then Inl TypeError
        else Inr (nextLoop players (nat start) 0))"

definition finishRank :: "nat \<Rightarrow> nat \<Rightarrow> SocialRank" where
  "finishRank finishOrder totalPlayers =
     (if finishOrder = 1 then President
      else if finishOrder = 2 \<and> totalPlayers \<ge> 4 then VicePresident
      else if int finishOrder = int totalPlayers - 1 \<and> totalPlayers \<ge> 4 then ViceAsshole
      else if finishOrder = totalPlayers then Asshole
      else Neutral)"

text \<open>
  \<open>playCards\<close>, first part: the array \<open>newPlayers\<close> before the end-of-round test. The
  player at \<open>playerIndex\<close> loses the played cards and, with an empty hand, gets a finish
  order and a rank.
\<close>

definition afterPlay :: "AssholeState \<Rightarrow> nat \<Rightarrow> card list \<Rightarrow> AssholePlayer list" where
  "afterPlay state playerIndex cards =
     (let player0 = as_players state ! playerIndex;
          played = player0\<lparr>ap_hand := filter (\<lambda>h. \<not> list_ex (\<lambda>c. cid c = cid h) cards)
                                          (ap_hand player0),
                           ap_hasPassed := False\<rparr>
      in (as_players state)[playerIndex :=
           (if length (ap_hand played) = 0
            then played\<lparr>ap_finishOrder := Some (as_finishCount state + 1),
                        ap_rank := Some (finishRank (as_finishCount state + 1)
                                           (length (as_players state)))\<rparr>
            else played)])"

text \<open>
  \<open>playCards\<close>. After a valid play the player is found and \<open>cards\<close> is not empty, so the
  last case is not reached.
\<close>

definition playCards :: "AssholeState \<Rightarrow> string \<Rightarrow> card list \<Rightarrow> error + AssholeState" where
  "playCards state pid cards =
     (if \<not> asshole_isValidPlay state pid cards then Inl Rejected
      else
        (case (findIndex (\<lambda>p. ap_id p = pid) (as_players state), cards) of
           (Some playerIndex, c0 # _) \<Rightarrow>
             let newPlayers = afterPlay state playerIndex cards;
                 rank = getCardRank c0;
                 clearedByTwo = (rank = 15);
                 activePlayers = filter (\<lambda>p. length (ap_hand p) > 0) newPlayers
             in
             if length activePlayers \<le> 1 then
               (let lastPlayers =
                      (case activePlayers of
                         [a] \<Rightarrow>
                           (case findIndex (\<lambda>p. ap_id p = ap_id a) newPlayers of
                              Some lastPlayer \<Rightarrow>
                                newPlayers[lastPlayer := (newPlayers ! lastPlayer)
                                   \<lparr>ap_finishOrder := Some (length (as_players state)),
                                    ap_rank := Some Asshole\<rparr>]
                            | None \<Rightarrow> newPlayers)
                       | _ \<Rightarrow> newPlayers)
                in Inr (state\<lparr>as_players := lastPlayers, as_phase := A_roundEnd\<rparr>))
             else
               (case findNextPlayer newPlayers (int playerIndex) of
                  Inl e \<Rightarrow> Inl e
                | Inr nextIndex \<Rightarrow>
                    Inr (state\<lparr>as_players := newPlayers,
                               as_pile := as_pile state @ [cards],
                               as_lastPlayedBy := Some pid,
                               as_currentRank := (if clearedByTwo then None else Some rank),
                               as_currentCount := (if clearedByTwo then 0 else length cards),
                               as_consecutivePasses := 0,
                               as_currentPlayerIndex :=
                                 (if clearedByTwo then playerIndex else nextIndex),
                               as_finishCount :=
                                 (if length (ap_hand (newPlayers ! playerIndex)) = 0
                                  then as_finishCount state + 1
                                  else as_finishCount state)\<rparr>))
         | _ \<Rightarrow> Inl Rejected))"

text \<open>
  \<open>pass\<close>. \<open>findIndex\<close> gives \<open>-1\<close> when no player has the id \<open>lastPlayedBy\<close> (or when
  it is \<open>null\<close>).
\<close>

definition asshole_pass :: "AssholeState \<Rightarrow> string \<Rightarrow> error + AssholeState" where
  "asshole_pass state pid =
     (case findIndex (\<lambda>p. ap_id p = pid) (as_players state) of
        None \<Rightarrow> Inl Rejected
      | Some playerIndex \<Rightarrow>
          if as_currentRank state = None then Inl Rejected
          else
            let newPlayers = (as_players state)[playerIndex :=
                  (as_players state ! playerIndex)\<lparr>ap_hasPassed := True\<rparr>];
                newConsecutivePasses = as_consecutivePasses state + 1;
                activePlayers = filter (\<lambda>p. length (ap_hand p) > 0) newPlayers
            in
            if int newConsecutivePasses \<ge> int (length activePlayers) - 1 then
              (let lastPlayedIndex =
                     (case findIndex (\<lambda>p. Some (ap_id p) = as_lastPlayedBy state)
                             (as_players state) of
                        None \<Rightarrow> - 1
                      | Some k \<Rightarrow> int k)
               in case findNextPlayer newPlayers (lastPlayedIndex - 1) of
                    Inl e \<Rightarrow> Inl e
                  | Inr nextIndex \<Rightarrow>
                      Inr (state\<lparr>as_players := map (\<lambda>p. p\<lparr>ap_hasPassed := False\<rparr>) newPlayers,
                                 as_pile := [],
                                 as_currentRank := None,
                                 as_currentCount := 0,
                                 as_consecutivePasses := 0,
                                 as_currentPlayerIndex := nextIndex\<rparr>))
            else
              (case findNextPlayer newPlayers (int playerIndex) of
                 Inl e \<Rightarrow> Inl e
               | Inr nextIndex \<Rightarrow>
                   Inr (state\<lparr>as_players := newPlayers,
                              as_consecutivePasses := newConsecutivePasses,
                              as_currentPlayerIndex := nextIndex\<rparr>)))"

text \<open>\<open>startNewRound\<close> of President; the players keep their ranks.\<close>

definition asshole_startNewRound ::
  "(nat \<Rightarrow> string) \<Rightarrow> (nat \<Rightarrow> nat) \<Rightarrow> AssholeState \<Rightarrow> AssholeState" where
  "asshole_startNewRound uuid rnd state =
     (let deck = shuffleDeck rnd (createDeck uuid);
          playerCount = length (as_players state);
          cardsPerPlayer = 52 div playerCount;
          newPlayers = map (\<lambda>(index, player).
              player\<lparr>ap_hand := sortCards (map (\<lambda>c. c\<lparr>faceUp := True\<rparr>)
                           (slice deck (index * cardsPerPlayer) ((index + 1) * cardsPerPlayer))),
                     ap_finishOrder := None, ap_hasPassed := False\<rparr>)
            (enumerate 0 (as_players state));
          starterIndex =
            (case List.find (\<lambda>p. ap_rank p = Some Asshole) newPlayers of
               Some asshole \<Rightarrow> findIndex (\<lambda>p. ap_id p = ap_id asshole) newPlayers
             | None \<Rightarrow>
                 findIndex (\<lambda>p. list_ex (\<lambda>c. suit c = clubs \<and> rank c = R3) (ap_hand p))
                   newPlayers)
      in state\<lparr>as_players := newPlayers,
               as_currentPlayerIndex := (case starterIndex of Some i \<Rightarrow> i | None \<Rightarrow> 0),
               as_pile := [], as_lastPlayedBy := None, as_currentRank := None,
               as_currentCount := 0, as_consecutivePasses := 0, as_phase := A_playing,
               as_roundNumber := as_roundNumber state + 1, as_finishCount := 0\<rparr>)"

text \<open>
  The states of a President game: the state the constructor returns, and every state
  that \<open>playCards\<close>, \<open>pass\<close> or \<open>startNewRound\<close> returns from such a state.
\<close>

inductive presidentState :: "AssholeState \<Rightarrow> bool" where
  created: "presidentState (createAssholeGame uuid rnd playerNames playerTypes)"
| played: "presidentState s \<Longrightarrow> playCards s pid cards = Inr s' \<Longrightarrow> presidentState s'"
| passed: "presidentState s \<Longrightarrow> asshole_pass s pid = Inr s' \<Longrightarrow> presidentState s'"
| newRound: "presidentState s \<Longrightarrow> presidentState (asshole_startNewRound uuid rnd s)"

text \<open>
  \<open>getCombinations\<close> of President. The inner \<open>combine(start, current)\<close> works on the cards
  from \<open>start\<close> on, here the list \<open>rest\<close>: it emits \<open>current\<close> once it has \<open>k\<close> cards,
  and otherwise goes on with the first card of \<open>rest\<close> taken, then with it left out.
\<close>

fun combine :: "nat \<Rightarrow> card list \<Rightarrow> card list \<Rightarrow> card list list" where
  "combine k current [] = (if length current = k then [current] else [])"
| "combine k current (c # rest) =
     (if length current = k then [current]
      else combine k (current @ [c]) rest @ combine k current rest)"

definition asshole_getCombinations :: "card list \<Rightarrow> nat \<Rightarrow> card list list" where
  "asshole_getCombinations cards k =
     (if k > length cards then []
      else if k = length cards then [cards]
      else if k = 1 then map (\<lambda>c. [c]) cards
      else combine k [] cards)"

text \<open>
  \<open>cardsByRank\<close> is a \<open>Map\<close>, iterated in the order in which its keys were first set: an
  association list. \<open>addToGroup\<close> is the body of the grouping loop.
\<close>

fun addToGroup :: "(int \<times> card list) list \<Rightarrow> card \<Rightarrow> (int \<times> card list) list" where
  "addToGroup [] c = [(getCardRank c, [c])]"
| "addToGroup ((r, cs) # groups) c =
     (if r = getCardRank c then (r, cs @ [c]) # groups
      else (r, cs) # addToGroup groups c)"

definition asshole_getValidPlays :: "AssholeState \<Rightarrow> string \<Rightarrow> card list list" where
  "asshole_getValidPlays state pid =
     (case List.find (\<lambda>p. ap_id p = pid) (as_players state) of
        None \<Rightarrow> []
      | Some player \<Rightarrow>
          let cardsByRank = foldl addToGroup [] (ap_hand player) in
          concat (map (\<lambda>(rank, cards).
            (case as_currentRank state of
               None \<Rightarrow>
                 concat (map (\<lambda>i. asshole_getCombinations cards i) [1 ..< length cards + 1])
             | Some currentRank \<Rightarrow>
                 if rank > currentRank \<and> length cards \<ge> as_currentCount state
                 then asshole_getCombinations cards (as_currentCount state)
                 else []))
            cardsByRank))"

subsection \<open>President: a sample state\<close>

definition presPlayer :: "string \<Rightarrow> card list \<Rightarrow> AssholePlayer" where
  "presPlayer i h = \<lparr>ap_id = i, ap_name = i, ap_type = computer, ap_hand = h, ap_rank = None,
     ap_finishOrder = None, ap_hasPassed = False\<rparr>"

text \<open>
  Three players and an empty pile; player 0 holds the four threes and a five.
\<close>

definition fourThrees :: "card list" where
  "fourThrees = [createCard hearts R3 ''h3'', createCard diamonds R3 ''d3'',
     createCard clubs R3 ''c3'', createCard spades R3 ''s3'']"

definition presExample :: AssholeState where
  "presExample = \<lparr>as_players =
       [presPlayer ''player-0'' (fourThrees @ [createCard hearts R5 ''h5'']),
        presPlayer ''player-1'' [createCard hearts R4 ''h4'', createCard spades R2 ''s2''],
        presPlayer ''player-2'' [createCard hearts R6 ''h6'']],
     as_currentPlayerIndex = 0, as_pile = [], as_lastPlayedBy = None, as_currentRank = None,
     as_currentCount = 0, as_consecutivePasses = 0, as_phase = A_playing, as_roundNumber = 1,
     as_finishCount = 0\<rparr>"

subsection \<open>President: a sample state with a pile\<close>

text \<open>Player 0 holds a five and two nines; a single seven lies on the pile.\<close>

definition presExample2 :: AssholeState where
  "presExample2 = \<lparr>as_players =
       [\<lparr>ap_id = ''player-0'', ap_name = ''You'', ap_type = human,
         ap_hand = [createCard hearts R5 ''h5'', createCard clubs R9 ''c9'',
                    createCard spades R9 ''s9''],
         ap_rank = None, ap_finishOrder = None, ap_hasPassed = False\<rparr>,
        \<lparr>ap_id = ''player-1'', ap_name = ''Bot 1'', ap_type = computer,
         ap_hand = [createCard hearts R6 ''h6''],
         ap_rank = None, ap_finishOrder = None, ap_hasPassed = False\<rparr>],
     as_currentPlayerIndex = 0, as_pile = [[createCard diamonds R7 ''d7'']],
     as_lastPlayedBy = Some ''player-1'', as_currentRank = Some 7,
     as_currentCount = 1, as_consecutivePasses = 0, as_phase = A_playing, as_roundNumber = 1,
     as_finishCount = 0\<rparr>"

section \<open>Poker (module lib/games/poker)\<close>

record PokerPlayer =
  pp_id :: string
  pp_name :: string
  pp_type :: PlayerType
  pp_hand :: "card list"
  pp_chips :: int
  pp_currentBet :: int
  pp_totalBet :: int
  pp_hasFolded :: bool
  pp_hasActed :: bool
  pp_isAllIn :: bool
  pp_isDealer :: bool

record SidePot =
  sp_amount :: int
  sp_playerIds :: "string list"

record Winner =
  w_playerId :: string
  w_amount :: int
  w_hand :: string

datatype PokerPhase = P_preflop | P_flop | P_turn | P_river | P_showdown | P_finished

record PokerState =
  ps_deck :: Deck
  ps_players :: "PokerPlayer list"
  ps_communityCards :: "card list"
  ps_pot :: int
  ps_sidePots :: "SidePot list"
  ps_currentBet :: int
  ps_dealerIndex :: nat
  ps_currentPlayerIndex :: nat
  ps_phase :: PokerPhase
  ps_smallBlind :: int
  ps_bigBlind :: int
  ps_minRaise :: int
  ps_roundNumber :: nat
  ps_winners :: "Winner list option"

datatype HandRank =
  HR_highCard | HR_pair | HR_twoPair | HR_threeOfAKind | HR_straight | HR_flush
  | HR_fullHouse | HR_fourOfAKind | HR_straightFlush | HR_royalFlush

record HandEvaluation =
  he_rank :: HandRank
  he_rankValue :: int
  he_cards :: "card list"
  he_description :: string

fun HAND_RANK_VALUES :: "HandRank \<Rightarrow> int" where
  "HAND_RANK_VALUES HR_highCard = 1"
| "HAND_RANK_VALUES HR_pair = 2"
| "HAND_RANK_VALUES HR_twoPair = 3"
| "HAND_RANK_VALUES HR_threeOfAKind = 4"
| "HAND_RANK_VALUES HR_straight = 5"
| "HAND_RANK_VALUES HR_flush = 6"
| "HAND_RANK_VALUES HR_fullHouse = 7"
| "HAND_RANK_VALUES HR_fourOfAKind = 8"
| "HAND_RANK_VALUES HR_straightFlush = 9"
| "HAND_RANK_VALUES HR_royalFlush = 10"

text \<open>\<open>xs[i]\<close> of JavaScript: \<open>undefined\<close> (\<open>None\<close>) beyond the end.\<close>

definition at :: "'a list \<Rightarrow> nat \<Rightarrow> 'a option" where
  "at xs i = (if i < length xs then Some (xs ! i) else None)"

text \<open>
  \<open>checkStraight\<close>: a comparison with \<open>undefined\<close> is false and a difference with
  \<open>undefined\<close> is \<open>NaN\<close>, which is not 1.
\<close>

definition checkStraight :: "int list \<Rightarrow> bool" where
  "checkStraight values =
     (if at values 0 = Some 13 \<and> at values 1 = Some 12 \<and> at values 2 = Some 11
          \<and> at values 3 = Some 10 \<and> at values 4 = Some 1 then True
      else if at values 0 = Some 5 \<and> at values 1 = Some 4 \<and> at values 2 = Some 3
          \<and> at values 3 = Some 2 \<and> at values 4 = Some 1 then True
      else list_all (\<lambda>i. case (at values i, at values (i + 1)) of
                            (Some a, Some b) \<Rightarrow> a - b = 1
                          | _ \<Rightarrow> False) [0 ..< 4])"

text \<open>
  \<open>getValueCounts\<close> fills an object keyed by the card values; \<open>Object.values\<close> lists
  the entries of such keys in ascending key order, the order in which the association
  list is kept here. \<open>bump\<close> is the body of the loop.
\<close>

fun bump :: "(int \<times> nat) list \<Rightarrow> int \<Rightarrow> (int \<times> nat) list" where
  "bump [] v = [(v, 1)]"
| "bump ((k, n) # kvs) v =
     (if v = k then (k, n + 1) # kvs
      else if v < k then (v, 1) # (k, n) # kvs
      else (k, n) # bump kvs v)"

definition getValueCounts :: "int list \<Rightarrow> (int \<times> nat) list" where
  "getValueCounts values = foldl bump [] values"

text \<open>
  \<open>evaluateFiveCards\<close>: the cards are sorted by descending value (the sort is stable),
  the counts by descending count.
\<close>

definition evaluateFiveCards :: "card list \<Rightarrow> HandEvaluation" where
  "evaluateFiveCards cards =
     (let sorted = sort_key (\<lambda>c. - val c) cards;
          values = map val sorted;
          suits = map suit sorted;
          isFlush = list_all (\<lambda>s. Some s = at suits 0) suits;
          isStraight = checkStraight values;
          isRoyal = (isStraight \<and> at values 0 = Some 13 \<and> at values 4 = Some 1
                     \<and> at values 1 = Some 12);
          counts = rev (sort (map snd (getValueCounts values)));
          (rank, description) =
            (if isRoyal \<and> isFlush then (HR_royalFlush, ''Royal Flush'')
             else if isStraight \<and> isFlush then (HR_straightFlush, ''Straight Flush'')
             else if at counts 0 = Some 4 then (HR_fourOfAKind, ''Four of a Kind'')
             else if at counts 0 = Some 3 \<and> at counts 1 = Some 2 then (HR_fullHouse, ''Full House'')
             else if isFlush then (HR_flush, ''Flush'')
             else if isStraight then (HR_straight, ''Straight'')
             else if at counts 0 = Some 3 then (HR_threeOfAKind, ''Three of a Kind'')
             else if at counts 0 = Some 2 \<and> at counts 1 = Some 2 then (HR_twoPair, ''Two Pair'')
             else if at counts 0 = Some 2 then (HR_pair, ''Pair'')
             else (HR_highCard, ''High Card''))
      in \<lparr>he_rank = rank, he_rankValue = HAND_RANK_VALUES rank, he_cards = sorted,
          he_description = description\<rparr>)"

text \<open>
  \<open>compareHands\<close>: the loop reads \<open>a.cards[i].value\<close> and \<open>b.cards[i].value\<close> for
  \<open>i\<close> from 0 to 4; with fewer than five cards on either side the read of \<open>.value\<close>
  throws. \<open>kickerLoop n\<close> is the loop with \<open>n\<close> rounds to go, on the cards from \<open>i\<close> on.
\<close>

fun kickerLoop :: "nat \<Rightarrow> card list \<Rightarrow> card list \<Rightarrow> error + int" where
  "kickerLoop 0 as bs = Inr 0"
| "kickerLoop (Suc n) (a # as) (b # bs) =
     (if val a \<noteq> val b then Inr (val a - val b) else kickerLoop n as bs)"
| "kickerLoop (Suc n) as bs = Inl TypeError"

definition compareHands :: "HandEvaluation \<Rightarrow> HandEvaluation \<Rightarrow> error + int" where
  "compareHands a b =
     (if he_rankValue a \<noteq> he_rankValue b then Inr (he_rankValue a - he_rankValue b)
      else kickerLoop 5 (he_cards a) (he_cards b))"

text \<open>
  \<open>getCombinations\<close> of Poker is the function \<open>combine\<close> alone, started at \<open>(0, [])\<close>.
\<close>

definition poker_getCombinations :: "card list \<Rightarrow> nat \<Rightarrow> card list list" where
  "poker_getCombinations cards k = combine k [] cards"

text \<open>
  \<open>evaluateHand\<close>: \<open>best\<close> starts as \<open>null\<close> (\<open>None\<close>) and is returned as it is, so the
  result is \<open>null\<close> when there is no five-card combination. \<open>bestStep\<close> is the body of
  the loop.
\<close>

definition bestStep ::
  "error + HandEvaluation option \<Rightarrow> card list \<Rightarrow> error + HandEvaluation option" where
  "bestStep acc combo =
     (case acc of
        Inl e \<Rightarrow> Inl e
      | Inr best \<Rightarrow>
          let evaluation = evaluateFiveCards combo in
          (case best of
             None \<Rightarrow> Inr (Some evaluation)
           | Some b \<Rightarrow>
               (case compareHands evaluation b of
                  Inl e \<Rightarrow> Inl e
                | Inr d \<Rightarrow> if d > 0 then Inr (Some evaluation) else Inr (Some b))))"

definition evaluateHand :: "card list \<Rightarrow> card list \<Rightarrow> error + HandEvaluation option" where
  "evaluateHand holeCards communityCards =
     foldl bestStep (Inr None) (poker_getCombinations (holeCards @ communityCards) 5)"

text \<open>
  \<open>determineWinner\<close>. The evaluations are sorted strongest first with the comparator
  \<open>(a, b) => compareHands(b.hand, a.hand)\<close>; \<open>Array.prototype.sort\<close> is stable, and
  \<open>insertEval\<close>, \<open>sortEvals\<close> are the stable insertion sort for that comparator. An
  exception of the comparator ends the sort.
\<close>

fun insertEval ::
  "PokerPlayer \<times> HandEvaluation \<Rightarrow> (PokerPlayer \<times> HandEvaluation) list
     \<Rightarrow> error + (PokerPlayer \<times> HandEvaluation) list" where
  "insertEval x [] = Inr [x]"
| "insertEval x (y # ys) =
     (case compareHands (snd y) (snd x) of
        Inl e \<Rightarrow> Inl e
      | Inr d \<Rightarrow>
          if d \<le> 0 then Inr (x # y # ys)
          else (case insertEval x ys of Inl e \<Rightarrow> Inl e | Inr r \<Rightarrow> Inr (y # r)))"

fun sortEvals ::
  "(PokerPlayer \<times> HandEvaluation) list \<Rightarrow> error + (PokerPlayer \<times> HandEvaluation) list" where
  "sortEvals [] = Inr []"
| "sortEvals (x # xs) =
     (case sortEvals xs of Inl e \<Rightarrow> Inl e | Inr r \<Rightarrow> insertEval x r)"

text \<open>\<open>evaluations.filter(e => compareHands(e.hand, bestHand) === 0)\<close>.\<close>

fun filterTies ::
  "HandEvaluation \<Rightarrow> (PokerPlayer \<times> HandEvaluation) list
     \<Rightarrow> error + (PokerPlayer \<times> HandEvaluation) list" where
  "filterTies bestHand [] = Inr []"
| "filterTies bestHand (e # es) =
     (case compareHands (snd e) bestHand of
        Inl err \<Rightarrow> Inl err
      | Inr d \<Rightarrow>
          (case filterTies bestHand es of
             Inl err \<Rightarrow> Inl err
           | Inr r \<Rightarrow> Inr (if d = 0 then e # r else r)))"

text \<open>
  The evaluations of the players who have not folded. A hand that \<open>evaluateHand\<close> left
  \<open>null\<close> makes the later read of \<open>rankValue\<close> throw.
\<close>

fun evaluations ::
  "card list \<Rightarrow> PokerPlayer list \<Rightarrow> error + (PokerPlayer \<times> HandEvaluation) list" where
  "evaluations communityCards [] = Inr []"
| "evaluations communityCards (p # ps) =
     (case evaluateHand (pp_hand p) communityCards of
        Inl e \<Rightarrow> Inl e
      | Inr None \<Rightarrow> Inl TypeError
      | Inr (Some h) \<Rightarrow>
          (case evaluations communityCards ps of
             Inl e \<Rightarrow> Inl e
           | Inr r \<Rightarrow> Inr ((p, h) # r)))"

definition determineWinner :: "PokerState \<Rightarrow> error + PokerState" where
  "determineWinner state =
     (let activePlayers = filter (\<lambda>p. \<not> pp_hasFolded p) (ps_players state) in
      case evaluations (ps_communityCards state) activePlayers of
        Inl e \<Rightarrow> Inl e
      | Inr evals \<Rightarrow>
          (case sortEvals evals of
             Inl e \<Rightarrow> Inl e
           | Inr [] \<Rightarrow> Inl TypeError
           | Inr (best # others) \<Rightarrow>
               (case filterTies (snd best) (best # others) of
                  Inl e \<Rightarrow> Inl e
                | Inr winners \<Rightarrow>
                    let winAmount = ps_pot state div int (length winners) in
                    Inr (state\<lparr>
                      ps_phase := P_finished,
                      ps_winners := Some (map (\<lambda>w. \<lparr>w_playerId = pp_id (fst w),
                                                     w_amount = winAmount,
                                                     w_hand = he_description (snd w)\<rparr>) winners),
                      ps_players := map (\<lambda>p.
                          let isWinner = list_ex (\<lambda>w. pp_id (fst w) = pp_id p) winners in
                          p\<lparr>pp_chips := pp_chips p + (if isWinner then winAmount else 0),
                            pp_hand := map (\<lambda>c. c\<lparr>faceUp := True\<rparr>) (pp_hand p)\<rparr>)
                        (ps_players state)\<rparr>))))"

text \<open>
  The loop of \<open>advancePhase\<close> that looks for the first player to act: it goes round the
  table as long as the player at \<open>firstToAct\<close> has folded or is all-in, and never ends
  when every player is one or the other. A function that does not return has the value
  \<open>None\<close>.
\<close>

partial_function (option) firstToActLoop :: "PokerPlayer list \<Rightarrow> nat \<Rightarrow> nat option" where
  "firstToActLoop players firstToAct =
     (if pp_hasFolded (players ! firstToAct) \<or> pp_isAllIn (players ! firstToAct)
      then firstToActLoop players ((firstToAct + 1) mod length players)
      else Some firstToAct)"

text \<open>
  \<open>advancePhase\<close>. A phase other than the four betting rounds matches no \<open>case\<close> of the
  \<open>switch\<close>. With no player, \<open>newPlayers[NaN].hasFolded\<close> throws.
\<close>

definition advancePhase :: "PokerState \<Rightarrow> (error + PokerState) option" where
  "advancePhase state =
     (let newPlayers = map (\<lambda>p. p\<lparr>pp_currentBet := 0,
                                     pp_hasActed := (pp_hasFolded p \<or> pp_isAllIn p)\<rparr>)
                           (ps_players state);
          dealt =
            (case ps_phase state of
               P_preflop \<Rightarrow>
                 (case drawCards (ps_deck state) 3 of (drawnCards, remainingDeck) \<Rightarrow>
                    Inr (remainingDeck, map (\<lambda>c. c\<lparr>faceUp := True\<rparr>) drawnCards, P_flop))
             | P_flop \<Rightarrow>
                 (case drawCards (ps_deck state) 1 of (drawnCards, remainingDeck) \<Rightarrow>
                    (case drawnCards of
                       [] \<Rightarrow> Inl UndefinedCard
                     | c # _ \<Rightarrow> Inr (remainingDeck,
                                     ps_communityCards state @ [c\<lparr>faceUp := True\<rparr>], P_turn)))
             | P_turn \<Rightarrow>
                 (case drawCards (ps_deck state) 1 of (drawnCards, remainingDeck) \<Rightarrow>
                    (case drawnCards of
                       [] \<Rightarrow> Inl UndefinedCard
                     | c # _ \<Rightarrow> Inr (remainingDeck,
                                     ps_communityCards state @ [c\<lparr>faceUp := True\<rparr>], P_river)))
             | P_river \<Rightarrow> Inr (ps_deck state, ps_communityCards state, P_showdown)
             | _ \<Rightarrow> Inr (ps_deck state, ps_communityCards state, ps_phase state))
      in case dealt of
           Inl e \<Rightarrow> Some (Inl e)
         | Inr (deck, communityCards, phase) \<Rightarrow>
             if newPlayers = [] then Some (Inl TypeError)
             else
               (case firstToActLoop newPlayers ((ps_dealerIndex state + 1) mod length newPlayers) of
                  None \<Rightarrow> None
                | Some firstToAct \<Rightarrow>
                    let newState = state\<lparr>ps_deck := deck,
                                         ps_communityCards := communityCards,
                                         ps_phase := phase,
                                         ps_players := newPlayers,
                                         ps_currentBet := 0,
                                         ps_currentPlayerIndex := firstToAct\<rparr>
                    in if phase = P_showdown then Some (determineWinner newState)
                       else Some (Inr newState)))"

text \<open>
  The loop of \<open>advanceAction\<close> that looks for the next player to act; it stops when it
  comes back to the current player.
\<close>

partial_function (option) nextToActLoop ::
  "PokerPlayer list \<Rightarrow> nat \<Rightarrow> nat \<Rightarrow> nat option" where
  "nextToActLoop players currentPlayerIndex nextIndex =
     (if pp_hasFolded (players ! nextIndex) \<or> pp_isAllIn (players ! nextIndex)
      then (let nextIndex' = (nextIndex + 1) mod length players
            in if nextIndex' = currentPlayerIndex then Some nextIndex'
               else nextToActLoop players currentPlayerIndex nextIndex')
      else Some nextIndex)"

text \<open>
  \<open>advanceAction\<close>. When the betting is not complete some player has neither folded nor
  gone all-in, so there are players and the index of the loop stays within the array.
\<close>

definition advanceAction :: "PokerState \<Rightarrow> (error + PokerState) option" where
  "advanceAction state =
     (let activePlayers = filter (\<lambda>p. \<not> pp_hasFolded p \<and> \<not> pp_isAllIn p) (ps_players state);
          nonFoldedPlayers = filter (\<lambda>p. \<not> pp_hasFolded p) (ps_players state)
      in case nonFoldedPlayers of
           [lastPlayer] \<Rightarrow>
             Some (Inr (state\<lparr>ps_phase := P_showdown,
                              ps_winners := Some [\<lparr>w_playerId = pp_id lastPlayer,
                                                   w_amount = ps_pot state,
                                                   w_hand = ''Last player standing''\<rparr>]\<rparr>))
         | _ \<Rightarrow>
             let bettingComplete =
                   (length activePlayers = 0
                    \<or> list_all (\<lambda>p. pp_hasActed p \<and> pp_currentBet p = ps_currentBet state)
                         activePlayers)
             in if bettingComplete then advancePhase state
                else
                  (case nextToActLoop (ps_players state) (ps_currentPlayerIndex state)
                          ((ps_currentPlayerIndex state + 1) mod length (ps_players state)) of
                     None \<Rightarrow> None
                   | Some nextIndex \<Rightarrow> Some (Inr (state\<lparr>ps_currentPlayerIndex := nextIndex\<rparr>))))"

text \<open>
  The five actions \<open>fold\<close>, \<open>call\<close>, \<open>raise\<close>, \<open>check\<close> and \<open>allIn\<close>;
  \<open>Some (Inl Rejected)\<close> is the \<open>null\<close> they return.
\<close>

definition poker_fold :: "PokerState \<Rightarrow> string \<Rightarrow> (error + PokerState) option" where
  "poker_fold state pid =
     (case findIndex (\<lambda>p. pp_id p = pid) (ps_players state) of
        None \<Rightarrow> Some (Inl Rejected)
      | Some playerIndex \<Rightarrow>
          advanceAction (state\<lparr>ps_players := (ps_players state)[playerIndex :=
            (ps_players state ! playerIndex)\<lparr>pp_hasFolded := True, pp_hasActed := True\<rparr>]\<rparr>))"

definition poker_call :: "PokerState \<Rightarrow> string \<Rightarrow> (error + PokerState) option" where
  "poker_call state pid =
     (case findIndex (\<lambda>p. pp_id p = pid) (ps_players state) of
        None \<Rightarrow> Some (Inl Rejected)
      | Some playerIndex \<Rightarrow>
          let player = ps_players state ! playerIndex;
              callAmount = min (ps_currentBet state - pp_currentBet player) (pp_chips player)
          in advanceAction (state\<lparr>
               ps_players := (ps_players state)[playerIndex :=
                 player\<lparr>pp_chips := pp_chips player - callAmount,
                        pp_currentBet := pp_currentBet player + callAmount,
                        pp_totalBet := pp_totalBet player + callAmount,
                        pp_hasActed := True,
                        pp_isAllIn := (pp_chips player = callAmount)\<rparr>],
               ps_pot := ps_pot state + callAmount\<rparr>))"

definition poker_raise :: "PokerState \<Rightarrow> string \<Rightarrow> int \<Rightarrow> (error + PokerState) option" where
  "poker_raise state pid raiseAmount =
     (case findIndex (\<lambda>p. pp_id p = pid) (ps_players state) of
        None \<Rightarrow> Some (Inl Rejected)
      | Some playerIndex \<Rightarrow>
          let player = ps_players state ! playerIndex;
              totalBetNeeded = ps_currentBet state + raiseAmount;
              amountToAdd = totalBetNeeded - pp_currentBet player
          in if amountToAdd > pp_chips player then Some (Inl Rejected)
             else if raiseAmount < ps_minRaise state \<and> amountToAdd \<noteq> pp_chips player
               then Some (Inl Rejected)
             else advanceAction (state\<lparr>
               ps_players := map (\<lambda>(i, p).
                   if i = playerIndex
                   then p\<lparr>pp_chips := pp_chips p - amountToAdd,
                          pp_currentBet := totalBetNeeded,
                          pp_totalBet := pp_totalBet p + amountToAdd,
                          pp_hasActed := True,
                          pp_isAllIn := (pp_chips p = amountToAdd)\<rparr>
                   else p\<lparr>pp_hasActed := (pp_hasFolded p \<or> pp_isAllIn p)\<rparr>)
                 (enumerate 0 (ps_players state)),
               ps_pot := ps_pot state + amountToAdd,
               ps_currentBet := totalBetNeeded,
               ps_minRaise := raiseAmount\<rparr>))"

definition poker_check :: "PokerState \<Rightarrow> string \<Rightarrow> (error + PokerState) option" where
  "poker_check state pid =
     (case findIndex (\<lambda>p. pp_id p = pid) (ps_players state) of
        None \<Rightarrow> Some (Inl Rejected)
      | Some playerIndex \<Rightarrow>
          let player = ps_players state ! playerIndex in
          if pp_currentBet player \<noteq> ps_currentBet state then Some (Inl Rejected)
          else advanceAction (state\<lparr>ps_players := (ps_players state)[playerIndex :=
                 player\<lparr>pp_hasActed := True\<rparr>]\<rparr>))"

definition poker_allIn :: "PokerState \<Rightarrow> string \<Rightarrow> (error + PokerState) option" where
  "poker_allIn state pid =
     (case findIndex (\<lambda>p. pp_id p = pid) (ps_players state) of
        None \<Rightarrow> Some (Inl Rejected)
      | Some playerIndex \<Rightarrow>
          let player = ps_players state ! playerIndex;
              allInAmount = pp_chips player;
              newBet = pp_currentBet player + allInAmount;
              isRaise = (newBet > ps_currentBet state)
          in advanceAction (state\<lparr>
               ps_players := map (\<lambda>(i, p).
                   if i = playerIndex
                   then p\<lparr>pp_chips := 0,
                          pp_currentBet := newBet,
                          pp_totalBet := pp_totalBet p + allInAmount,
                          pp_hasActed := True,
                          pp_isAllIn := True\<rparr>
                   else if isRaise \<and> \<not> pp_hasFolded p \<and> \<not> pp_isAllIn p
                     then p\<lparr>pp_hasActed := False\<rparr>
                     else p)
                 (enumerate 0 (ps_players state)),
               ps_pot := ps_pot state + allInAmount,
               ps_currentBet := (if isRaise then newBet else ps_currentBet state),
               ps_minRaise := (if isRaise then newBet - ps_currentBet state
                               else ps_minRaise state)\<rparr>))"

subsection \<open>Poker: sample hands and the kicker sequence\<close>

text \<open>
  The royal flush of spades, the wheel, two hands with a pair of kings, and the
  descending sequence of the card values of a hand.
\<close>

definition royalHand :: "card list" where
  "royalHand = [createCard spades RA ''as'', createCard spades RK ''ks'', createCard spades RQ ''qs'',
     createCard spades RJ ''js'', createCard spades R10 ''ts'']"





subsection \<open>Poker: a sample state\<close>

text \<open>
  Two players after the blinds (10 and 20, pot 30), before the flop; player 0 is to act.
\<close>

definition pokerPlayer :: "string \<Rightarrow> int \<Rightarrow> int \<Rightarrow> card list \<Rightarrow> PokerPlayer" where
  "pokerPlayer i chips bet h = \<lparr>pp_id = i, pp_name = i, pp_type = computer, pp_hand = h,
     pp_chips = chips, pp_currentBet = bet, pp_totalBet = bet, pp_hasFolded = False,
     pp_hasActed = False, pp_isAllIn = False, pp_isDealer = False\<rparr>"

definition pokerExample :: PokerState where
  "pokerExample = \<lparr>ps_deck = [createCard hearts R7 ''h7'', createCard clubs R8 ''c8'',
       createCard spades R9 ''s9'', createCard hearts RJ ''hj'', createCard clubs RQ ''cq''],
     ps_players =
       [pokerPlayer ''player-0'' 990 10 [createCard hearts R2 ''h2'', createCard clubs R7 ''c7''],
        pokerPlayer ''player-1'' 980 20 [createCard spades RA ''sa'', createCard spades RK ''sk'']],
     ps_communityCards = [], ps_pot = 30, ps_sidePots = [], ps_currentBet = 20,
     ps_dealerIndex = 0, ps_currentPlayerIndex = 0, ps_phase = P_preflop, ps_smallBlind = 10,
     ps_bigBlind = 20, ps_minRaise = 20, ps_roundNumber = 1, ps_winners = None\<rparr>"

subsection \<open>A sample source of identifiers\<close>


section \<open>Properties\<close>

subsection \<open>Shared lemmas\<close>

lemma findIndex_Some:
  "findIndex P xs = Some i \<Longrightarrow> i < length xs \<and> P (xs ! i) \<and> (\<forall>j<i. \<not> P (xs ! j))"
proof (induction xs arbitrary: i)
  case Nil
  then show ?case by simp
next
  case (Cons x xs)
  show ?case
  proof (cases "P x")
    case True
    with Cons.prems show ?thesis by simp
  next
    case False
    with Cons.prems obtain k where k: "findIndex P xs = Some k" "i = Suc k"
      by auto
    from Cons.IH[OF k(1)] False k(2) show ?thesis
      by (auto simp: nth_Cons split: nat.splits)
  qed
qed

lemma findIndex_None: "findIndex P xs = None \<longleftrightarrow> (\<forall>x\<in>set xs. \<not> P x)"
  by (induction xs) auto

subsection \<open>Blackjack: hand value\<close>

lemma foldl_addCard:
  "foldl addCard (v, a) hand =
     (v + sum_list (map cardPoints hand), a + length (filter (\<lambda>c. rank c = RA) hand))"
proof (induction hand arbitrary: v a)
  case Nil
  show ?case by simp
next
  case (Cons c cs)
  have step: "addCard (v, a) c =
      (v + cardPoints c, a + (if rank c = RA then 1 else 0))"
    by (cases "rank c") (simp_all add: addCard_def cardPoints_def)
  show ?case
    by (simp add: step Cons.IH)
qed

lemma adjustAces_closed:
  "adjustAces v a = (v - 10 * int (demotedAces v a), a - demotedAces v a)"
proof (induction a arbitrary: v)
  case 0
  show ?case by (simp add: demotedAces_def)
next
  case (Suc a)
  show ?case
  proof (cases "v > 21")
    case False
    then show ?thesis by (simp add: demotedAces_def)
  next
    case True
    have k: "demotedAces v (Suc a) = Suc (demotedAces (v - 10) a)"
      using True by (auto simp: demotedAces_def min_def)
    show ?thesis using True by (simp add: Suc.IH k)
  qed
qed

lemma soft_iff:
  "(demotedAces v a < a \<and> v - 10 * int (demotedAces v a) \<le> 21) \<longleftrightarrow> demotedAces v a < a"
  by (auto simp: demotedAces_def min_def)

lemma getHandValue_closed:
  "getHandValue hand =
     (let raw = sum_list (map cardPoints hand);
          n = length (filter (\<lambda>c. rank c = RA) hand);
          k = demotedAces raw n
      in \<lparr>hv_value = raw - 10 * int k, hv_isSoft = (k < n)\<rparr>)"
  by (simp add: getHandValue_def foldl_addCard adjustAces_closed soft_iff Let_def)

lemma value_AA9:
  "getHandValue [createCard spades RA ''a'', createCard hearts RA ''b'',
     createCard clubs R9 ''c''] = \<lparr>hv_value = 21, hv_isSoft = True\<rparr>"
  by (simp add: getHandValue_def addCard_def createCard_def numeral_2_eq_2)

lemma value_KQ:
  "hv_value (getHandValue [createCard spades RK ''k'', createCard hearts RQ ''q'']) = 20"
  by (simp add: getHandValue_def addCard_def createCard_def)

lemma blackjack_AK: "isBlackjack [createCard spades RA ''a'', createCard hearts RK ''k'']"
  by (simp add: isBlackjack_def getHandValue_def addCard_def createCard_def)

lemma value_KQ5:
  "hv_value (getHandValue [createCard spades RK ''k'', createCard hearts RQ ''q'',
     createCard diamonds R5 ''f'']) = 25"
  by (simp add: getHandValue_def addCard_def createCard_def)

lemma busted_KQ5:
  "isBusted [createCard spades RK ''k'', createCard hearts RQ ''q'',
     createCard diamonds R5 ''f'']"
  by (simp add: isBusted_def getHandValue_def addCard_def createCard_def)

text \<open>
  C6, as stated, fails at the hand \<open>[K, Q]\<close>: two cards worth 10 each total 20, so the
  hand is not a blackjack.
\<close>

theorem C6_counterexample:
  "\<not> isBlackjack [createCard spades RK ''k'', createCard hearts RQ ''q'']"
  by (simp add: isBlackjack_def getHandValue_def addCard_def createCard_def)

text \<open>
  C6 (amended): for every hand, \<open>getHandValue\<close> returns the raw total (face cards 10,
  each Ace 11) minus 10 for each Ace that has to fall back to 1, the number of such Aces
  being the least that brings the total to 21 or below (all of them if none does), and
  \<open>isSoft\<close> holds exactly when an Ace still counts as 11. \<open>[A, A, 9]\<close> evaluates to
  (21, soft); \<open>[K, Q]\<close> totals 20 and is not a blackjack, while \<open>[A, K]\<close> is;
  \<open>[K, Q, 5]\<close> evaluates to 25 and is busted.
\<close>

theorem C6_getHandValue:
  "getHandValue hand =
     (let raw = sum_list (map cardPoints hand);
          n = length (filter (\<lambda>c. rank c = RA) hand);
          k = demotedAces raw n
      in \<lparr>hv_value = raw - 10 * int k, hv_isSoft = (k < n)\<rparr>)
   \<and> getHandValue [createCard spades RA ''a'', createCard hearts RA ''b'',
        createCard clubs R9 ''c''] = \<lparr>hv_value = 21, hv_isSoft = True\<rparr>
   \<and> hv_value (getHandValue [createCard spades RK ''k'', createCard hearts RQ ''q'']) = 20
   \<and> isBlackjack [createCard spades RA ''a'', createCard hearts RK ''k'']
   \<and> hv_value (getHandValue [createCard spades RK ''k'', createCard hearts RQ ''q'',
        createCard diamonds R5 ''f'']) = 25
   \<and> isBusted [createCard spades RK ''k'', createCard hearts RQ ''q'',
        createCard diamonds R5 ''f'']"
  by (intro conjI getHandValue_closed value_AA9 value_KQ blackjack_AK value_KQ5 busted_KQ5)

subsection \<open>Blackjack: hitting out of turn\<close>

text \<open>
  C7, as stated, fails: in the playing phase with player 0 to act, \<open>hit\<close> for player 1
  (who has neither stood nor busted) returns a new state in which player 1 holds the top
  card of the deck.
\<close>

theorem C7_counterexample:
  "bs_phase bjExample = Playing \<and> bs_currentPlayerIndex bjExample = 0
   \<and> findIndex (\<lambda>p. bp_id p = ''player-1'') (bs_players bjExample) = Some 1
   \<and> \<not> bp_hasStood (bs_players bjExample ! 1) \<and> \<not> bp_hasBusted (bs_players bjExample ! 1)
   \<and> hit bjExample ''player-1'' =
       Inr (bjExample\<lparr>bs_deck := [createCard hearts R9 ''u1''],
             bs_players := [bjPlayer ''player-0'',
               (bjPlayer ''player-1'')\<lparr>bp_hand := [(createCard spades R7 ''u0'')\<lparr>faceUp := True\<rparr>]\<rparr>]\<rparr>)
   \<and> hit bjExample ''player-1'' \<noteq> Inl Rejected"
  by (simp add: bjExample_def bjPlayer_def hit_def drawCards_def isBusted_def
      getHandValue_def addCard_def createCard_def Let_def)

text \<open>
  C7 (amended): \<open>hit\<close> returns the failure sentinel exactly when the player id is unknown
  or that player has already stood or busted. Whose turn it is and the phase play no
  part: for a known player who has neither stood nor busted, and a deck that is not
  empty, \<open>hit\<close> returns a new state in which that player has received the top card of the
  deck, face up.
\<close>

theorem C7_hit_ignores_turn:
  "(hit state playerId = Inl Rejected \<longleftrightarrow>
      (case findIndex (\<lambda>p. bp_id p = playerId) (bs_players state) of
         None \<Rightarrow> True
       | Some i \<Rightarrow> bp_hasStood (bs_players state ! i) \<or> bp_hasBusted (bs_players state ! i)))
   \<and> (\<forall>i c rest. findIndex (\<lambda>p. bp_id p = playerId) (bs_players state) = Some i
        \<and> \<not> bp_hasStood (bs_players state ! i) \<and> \<not> bp_hasBusted (bs_players state ! i)
        \<and> bs_deck state = c # rest \<longrightarrow>
        (\<exists>state'. hit state playerId = Inr state' \<and> bs_deck state' = rest
           \<and> bp_hand (bs_players state' ! i)
               = bp_hand (bs_players state ! i) @ [c\<lparr>faceUp := True\<rparr>]))"
proof (intro conjI allI impI)
  show "hit state playerId = Inl Rejected \<longleftrightarrow>
      (case findIndex (\<lambda>p. bp_id p = playerId) (bs_players state) of
         None \<Rightarrow> True
       | Some i \<Rightarrow> bp_hasStood (bs_players state ! i) \<or> bp_hasBusted (bs_players state ! i))"
    by (auto simp: hit_def drawCards_def Let_def split: option.splits list.splits)
next
  fix i c rest
  assume a: "findIndex (\<lambda>p. bp_id p = playerId) (bs_players state) = Some i
        \<and> \<not> bp_hasStood (bs_players state ! i) \<and> \<not> bp_hasBusted (bs_players state ! i)
        \<and> bs_deck state = c # rest"
  then have i: "i < length (bs_players state)"
    using findIndex_Some by blast
  from a i show "\<exists>state'. hit state playerId = Inr state' \<and> bs_deck state' = rest
           \<and> bp_hand (bs_players state' ! i)
               = bp_hand (bs_players state ! i) @ [c\<lparr>faceUp := True\<rparr>]"
    by (auto simp: hit_def drawCards_def Let_def split: option.splits)
qed

text \<open>
  C7 (amended) at the sample state: it is player 0's turn, and \<open>hit\<close> for player 1 deals
  player 1 the seven of spades.
\<close>

theorem C7_hit_ignores_turn_witness:
  "findIndex (\<lambda>p. bp_id p = ''player-1'') (bs_players bjExample) = Some 1
   \<and> bs_currentPlayerIndex bjExample \<noteq> 1
   \<and> (\<exists>state'. hit bjExample ''player-1'' = Inr state'
        \<and> bs_deck state' = [createCard hearts R9 ''u1'']
        \<and> bp_hand (bs_players state' ! 1) = [(createCard spades R7 ''u0'')\<lparr>faceUp := True\<rparr>])"
proof -
  have f: "findIndex (\<lambda>p. bp_id p = ''player-1'') (bs_players bjExample) = Some 1"
    by (simp add: bjExample_def bjPlayer_def)
  have h: "\<not> bp_hasStood (bs_players bjExample ! 1) \<and> \<not> bp_hasBusted (bs_players bjExample ! 1)
    \<and> bs_deck bjExample = createCard spades R7 ''u0'' # [createCard hearts R9 ''u1'']"
    by (simp add: bjExample_def bjPlayer_def)
  have e: "bp_hand (bs_players bjExample ! 1) = []" "bs_currentPlayerIndex bjExample \<noteq> 1"
    by (simp_all add: bjExample_def bjPlayer_def)
  have "\<exists>state'. hit bjExample ''player-1'' = Inr state'
      \<and> bs_deck state' = [createCard hearts R9 ''u1'']
      \<and> bp_hand (bs_players state' ! 1)
          = bp_hand (bs_players bjExample ! 1) @ [(createCard spades R7 ''u0'')\<lparr>faceUp := True\<rparr>]"
    using C7_hit_ignores_turn [of bjExample "''player-1''", THEN conjunct2, rule_format,
        of 1 "createCard spades R7 ''u0''" "[createCard hearts R9 ''u1'']"] f h
    by blast
  with f e show ?thesis
    by simp
qed

subsection \<open>Solitaire: recycling the waste\<close>




lemma ex2: "(drawFromStock ^^ 2) solExample =
   solExample\<lparr>ss_stock := [], ss_waste := [(createCard spades R7 ''a'')\<lparr>faceUp := True\<rparr>, (createCard hearts R9 ''b'')\<lparr>faceUp := True\<rparr>], ss_moves := 2\<rparr>"
  by (simp add: numeral_2_eq_2 drawFromStock_def solExample_def)



subsection \<open>Hearts: the winner of a trick\<close>

lemma winnerLoop_spec:
  "winnerLoop ls i es (w0, h0) = (w, h) \<Longrightarrow>
     h0 \<le> h
   \<and> (\<forall>e\<in>set es. Some (suit (te_card e)) = ls \<longrightarrow> val (te_card e) \<le> h)
   \<and> ((w = w0 \<and> h = h0)
      \<or> (i \<le> w \<and> w < i + length es \<and> Some (suit (te_card (es ! (w - i)))) = ls
          \<and> val (te_card (es ! (w - i))) = h \<and> h0 < h))"
proof (induction es arbitrary: i w0 h0)
  case Nil
  then show ?case by simp
next
  case (Cons e es)
  show ?case
  proof (cases "Some (suit (te_card e)) = ls \<and> val (te_card e) > h0")
    case True
    with Cons.prems have r: "winnerLoop ls (i + 1) es (i, val (te_card e)) = (w, h)"
      by simp
    from Cons.IH[OF r] True show ?thesis
      by (auto simp: nth_Cons split: nat.splits) (metis Suc_diff_le diff_Suc_Suc nat.inject)+
  next
    case False
    with Cons.prems have r: "winnerLoop ls (i + 1) es (w0, h0) = (w, h)"
      by auto
    from Cons.IH[OF r] False show ?thesis
      by (auto simp: nth_Cons split: nat.splits) (metis Suc_diff_le diff_Suc_Suc nat.inject)+
  qed
qed

lemma getRankValue_ge2: "r \<noteq> RA \<Longrightarrow> 2 \<le> getRankValue r"
  by (cases r) simp_all

text \<open>
  C10: in a completed trick whose cards carry the shared rank-to-value mapping (Ace = 1)
  and are pairwise different cards, if the lead suit was played at least twice and one of
  the lead-suit cards is the Ace, the winner computed by \<open>completeTrick\<close> is not the
  Ace: the winning entry is another card of the lead suit, played by another player.
\<close>

theorem C10_ace_never_wins:
  assumes wf: "\<forall>e\<in>set (hs_currentTrick state). val (te_card e) = getRankValue (rank (te_card e))"
    and cards: "distinct (map (\<lambda>e. (suit (te_card e), rank (te_card e))) (hs_currentTrick state))"
    and ids: "distinct (map te_playerId (hs_currentTrick state))"
    and lead: "hs_leadSuit state = Some s"
    and a: "a < length (hs_currentTrick state)"
           "suit (te_card (hs_currentTrick state ! a)) = s"
           "rank (te_card (hs_currentTrick state ! a)) = RA"
    and b: "b < length (hs_currentTrick state)" "b \<noteq> a"
           "suit (te_card (hs_currentTrick state ! b)) = s"
  shows "trickWinnerIndex state \<noteq> a
       \<and> trickWinnerIndex state < length (hs_currentTrick state)
       \<and> suit (te_card (hs_currentTrick state ! trickWinnerIndex state)) = s
       \<and> rank (te_card (hs_currentTrick state ! trickWinnerIndex state)) \<noteq> RA
       \<and> te_playerId (hs_currentTrick state ! trickWinnerIndex state)
           \<noteq> te_playerId (hs_currentTrick state ! a)"
proof -
  let ?es = "hs_currentTrick state"
  obtain w h where wh: "winnerLoop (Some s) 0 ?es (0, 0) = (w, h)"
    by (cases "winnerLoop (Some s) 0 ?es (0, 0)") auto
  have w: "trickWinnerIndex state = w"
    by (simp add: trickWinnerIndex_def lead wh)
  have rb: "rank (te_card (?es ! b)) \<noteq> RA"
  proof
    assume "rank (te_card (?es ! b)) = RA"
    with a b have "map (\<lambda>e. (suit (te_card e), rank (te_card e))) ?es ! a
        = map (\<lambda>e. (suit (te_card e), rank (te_card e))) ?es ! b"
      by simp
    with nth_eq_iff_index_eq [OF cards, of a b] a(1) b(1) have "a = b"
      by simp
    with b(2) show False by simp
  qed
  have eb: "?es ! b \<in> set ?es"
    using b(1) by simp
  with wf have "val (te_card (?es ! b)) = getRankValue (rank (te_card (?es ! b)))"
    by blast
  with rb have vb: "2 \<le> val (te_card (?es ! b))"
    using getRankValue_ge2 by simp
  from winnerLoop_spec[OF wh] have
    hb: "\<forall>e\<in>set ?es. Some (suit (te_card e)) = Some s \<longrightarrow> val (te_card e) \<le> h"
    and alt: "(w = 0 \<and> h = 0) \<or> (0 \<le> w \<and> w < 0 + length ?es
        \<and> Some (suit (te_card (?es ! (w - 0)))) = Some s \<and> val (te_card (?es ! (w - 0))) = h \<and> 0 < h)"
    by blast+
  from hb eb b(3) have "val (te_card (?es ! b)) \<le> h"
    by simp
  with vb have h2: "2 \<le> h" by simp
  with alt have win: "w < length ?es" "suit (te_card (?es ! w)) = s" "val (te_card (?es ! w)) = h"
    by auto
  have "?es ! w \<in> set ?es"
    using win(1) by simp
  with wf have vw: "val (te_card (?es ! w)) = getRankValue (rank (te_card (?es ! w)))"
    by blast
  have rw: "rank (te_card (?es ! w)) \<noteq> RA"
  proof
    assume "rank (te_card (?es ! w)) = RA"
    with vw win(3) have "h = 1" by simp
    with h2 show False by simp
  qed
  with a(3) have wa: "w \<noteq> a" by auto
  have "te_playerId (?es ! w) \<noteq> te_playerId (?es ! a)"
  proof
    assume "te_playerId (?es ! w) = te_playerId (?es ! a)"
    with win(1) a(1) have "map te_playerId ?es ! w = map te_playerId ?es ! a"
      by simp
    with nth_eq_iff_index_eq [OF ids, of w a] win(1) a(1) have "w = a"
      by simp
    with wa show False by simp
  qed
  with wa win rw show ?thesis
    by (simp add: w)
qed

text \<open>
  C10 at the sample trick: the Ace of clubs leads, and the two of clubs, at index 2, wins.
\<close>

theorem C10_ace_never_wins_witness:
  "rank (te_card (hs_currentTrick trickExample ! 0)) = RA
   \<and> hs_leadSuit trickExample = Some (suit (te_card (hs_currentTrick trickExample ! 0)))
   \<and> trickWinnerIndex trickExample \<noteq> 0 \<and> trickWinnerIndex trickExample = 2"
proof -
  have "trickWinnerIndex trickExample \<noteq> 0"
    using C10_ace_never_wins [of trickExample clubs 0 2]
    by (simp add: trickExample_def createCard_def)
  moreover have "trickWinnerIndex trickExample = 2"
    by (simp add: trickExample_def createCard_def trickWinnerIndex_def)
  ultimately show ?thesis
    by (simp add: trickExample_def createCard_def)
qed

subsection \<open>Hearts: scoring a round\<close>

lemma startNewRound_scores:
  "map hp_score (hs_players (hearts_startNewRound uuid rnd st)) = map hp_score (hs_players st)"
proof -
  have "map hp_score (hs_players (hearts_startNewRound uuid rnd st))
      = map (hp_score \<circ> snd) (enumerate 0 (hs_players st))"
    by (simp add: hearts_startNewRound_def Let_def comp_def case_prod_beta)
  also have "\<dots> = map hp_score (map snd (enumerate 0 (hs_players st)))"
    by (simp only: map_map)
  also have "\<dots> = map hp_score (hs_players st)"
    by (simp only: map_snd_enumerate)
  finally show ?thesis .
qed

lemma completeRound_scores:
  "map hp_score (hs_players (completeRound uuid rnd state)) = map hp_score (scored (hs_players state))"
  unfolding completeRound_def scored_def Let_def
  by (simp add: startNewRound_scores split: option.splits)

lemma member_le_sum:
  fixes f :: "'a \<Rightarrow> int"
  assumes "\<forall>x\<in>set xs. 0 \<le> f x" and "p \<in> set xs"
  shows "f p \<le> sum_list (map f xs)"
  using assms
proof (induction xs)
  case Nil
  then show ?case by simp
next
  case (Cons x xs)
  have nn: "0 \<le> sum_list (map f xs)"
    using Cons.prems(1) by (intro sum_list_nonneg) auto
  show ?case
  proof (cases "p = x")
    case True
    with nn show ?thesis by simp
  next
    case False
    with Cons have "f p \<le> sum_list (map f xs)" by simp
    moreover have "0 \<le> f x" using Cons.prems(1) by simp
    ultimately show ?thesis by simp
  qed
qed

lemma two_members_sum:
  fixes f :: "'a \<Rightarrow> int"
  assumes "\<forall>x\<in>set xs. 0 \<le> f x" and "p \<in> set xs" and "m \<in> set xs" and "p \<noteq> m"
  shows "f p + f m \<le> sum_list (map f xs)"
  using assms
proof (induction xs)
  case Nil
  then show ?case by simp
next
  case (Cons x xs)
  have tl: "\<forall>y\<in>set xs. 0 \<le> f y" and hd: "0 \<le> f x"
    using Cons.prems(1) by simp_all
  consider "p = x" | "m = x" | "p \<noteq> x" "m \<noteq> x" by blast
  then show ?case
  proof cases
    case 1
    with Cons.prems have "m \<in> set xs" by auto
    with tl have "f m \<le> sum_list (map f xs)" by (rule member_le_sum)
    with 1 show ?thesis by simp
  next
    case 2
    with Cons.prems have "p \<in> set xs" by auto
    with tl have "f p \<le> sum_list (map f xs)" by (rule member_le_sum)
    with 2 show ?thesis by simp
  next
    case 3
    with Cons.prems have "p \<in> set xs" "m \<in> set xs" by auto
    with Cons.IH tl Cons.prems(4) have "f p + f m \<le> sum_list (map f xs)" by simp
    with hd show ?thesis by simp
  qed
qed

text \<open>
  C8: when a round ends (the players' round scores are the 26 points of the round),
  \<open>completeRound\<close> adds 0 to the cumulative score of a player whose round score is 26
  and 26 to every other player's; if no player has 26, each player's cumulative score
  grows by that player's own round score. This holds whether the game ends or a new
  round is dealt.
\<close>

theorem C8_round_scoring:
  assumes ids: "distinct (map hp_id (hs_players state))"
    and nonneg: "\<forall>p\<in>set (hs_players state). 0 \<le> hp_roundScore p"
    and total: "sum_list (map hp_roundScore (hs_players state)) = 26"
  shows "map hp_score (hs_players (completeRound uuid rnd state)) =
     map (\<lambda>p. if \<exists>q\<in>set (hs_players state). hp_roundScore q = 26
               then (if hp_roundScore p = 26 then hp_score p + 0 else hp_score p + 26)
               else hp_score p + hp_roundScore p)
         (hs_players state)"
proof (cases "List.find (\<lambda>p. hp_roundScore p = 26) (hs_players state)")
  case None
  then have no: "\<not> (\<exists>q\<in>set (hs_players state). hp_roundScore q = 26)"
    by (simp add: find_None_iff)
  show ?thesis
    unfolding completeRound_scores scored_def None
    using no by simp
next
  case (Some m)
  then have m: "m \<in> set (hs_players state)" "hp_roundScore m = 26"
    by (auto simp: find_Some_iff)
  have uniq: "hp_roundScore p = 26 \<longleftrightarrow> hp_id p = hp_id m" if p: "p \<in> set (hs_players state)" for p
  proof
    assume p26: "hp_roundScore p = 26"
    have "p = m"
    proof (rule ccontr)
      assume "p \<noteq> m"
      with two_members_sum [OF nonneg p m(1)]
      have "hp_roundScore p + hp_roundScore m \<le> sum_list (map hp_roundScore (hs_players state))"
        by simp
      with p26 m(2) total show False by simp
    qed
    then show "hp_id p = hp_id m" by simp
  next
    assume "hp_id p = hp_id m"
    with ids p m(1) have "p = m"
      by (meson distinct_map inj_on_def)
    with m(2) show "hp_roundScore p = 26" by simp
  qed
  have ex: "\<exists>q\<in>set (hs_players state). hp_roundScore q = 26"
    using m by blast
  show ?thesis
    unfolding completeRound_scores scored_def Some
    using ex uniq by simp
qed

text \<open>
  C8 at a sample round: player 0 took all 26 points and stays at 10; the others, at 20,
  30 and 40, get 26 each.
\<close>

theorem C8_round_scoring_witness:
  "distinct (map hp_id (hs_players roundExample))
   \<and> sum_list (map hp_roundScore (hs_players roundExample)) = 26
   \<and> map hp_score (hs_players (completeRound (\<lambda>k. []) (\<lambda>i. 0) roundExample)) = [10, 46, 56, 66]"
proof -
  have h: "distinct (map hp_id (hs_players roundExample))"
    "\<forall>p\<in>set (hs_players roundExample). 0 \<le> hp_roundScore p"
    "sum_list (map hp_roundScore (hs_players roundExample)) = 26"
    by (simp_all add: roundExample_def)
  from C8_round_scoring [OF h, of "\<lambda>k. []" "\<lambda>i. 0"] h(1,3) show ?thesis
    by (simp add: roundExample_def)
qed

subsection \<open>President: whose turn it is after a play\<close>

lemma nextLoop_least:
  assumes "next < length players"
    and "ap_hand (players ! ((next + d) mod length players)) \<noteq> []"
    and "\<forall>d'<d. ap_hand (players ! ((next + d') mod length players)) = []"
    and "attempts + d \<le> length players"
  shows "nextLoop players next attempts = (next + d) mod length players"
  using assms
proof (induction d arbitrary: "next" attempts)
  case 0
  then show ?case by (subst nextLoop.simps) simp
next
  case (Suc d)
  let ?n = "length players"
  let ?next' = "(next + 1) mod ?n"
  from Suc.prems(3) have e0: "ap_hand (players ! next) = []"
    using Suc.prems(1) by (metis add.right_neutral mod_less zero_less_Suc)
  have lt: "attempts < ?n"
    using Suc.prems(4) by simp
  have step: "nextLoop players next attempts = nextLoop players ?next' (attempts + 1)"
    using e0 lt by (subst nextLoop.simps) simp
  have pos: "0 < ?n"
    using Suc.prems(1) by (rule le_less_trans[OF le0])
  have n': "?next' < ?n"
    using pos by (rule mod_less_divisor)
  have shift: "(?next' + k) mod ?n = (next + Suc k) mod ?n" for k
    by (simp add: mod_add_left_eq)
  have h1: "ap_hand (players ! ((?next' + d) mod ?n)) \<noteq> []"
    using Suc.prems(2) unfolding shift .
  have h2: "\<forall>d'<d. ap_hand (players ! ((?next' + d') mod ?n)) = []"
    using Suc.prems(3) unfolding shift by auto
  have h3: "(attempts + 1) + d \<le> ?n"
    using Suc.prems(4) by simp
  from Suc.IH[OF n' h1 h2 h3] step show ?case
    unfolding shift by simp
qed

lemma findNextPlayer_next_holder:
  assumes i: "i < length players"
    and act: "\<exists>a<length players. ap_hand (players ! a) \<noteq> []"
  shows "\<exists>n d. findNextPlayer players (int i) = Inr n \<and> n < length players
       \<and> ap_hand (players ! n) \<noteq> [] \<and> d < length players
       \<and> n = (i + 1 + d) mod length players
       \<and> (\<forall>d'<d. ap_hand (players ! ((i + 1 + d') mod length players)) = [])"
proof -
  let ?n = "length players"
  let ?s = "(i + 1) mod ?n"
  have pos: "0 < ?n" using i by (rule le_less_trans[OF le0])
  from act obtain a where a: "a < ?n" "ap_hand (players ! a) \<noteq> []" by blast
  define P where "P d \<longleftrightarrow> ap_hand (players ! ((i + 1 + d) mod ?n)) \<noteq> []" for d
  have "P ((a + ?n - ?s) mod ?n)"
  proof -
    have "s < ?n \<Longrightarrow> (s + (a + ?n - s) mod ?n) mod ?n = a" for s
      using a(1) by (simp add: mod_add_right_eq)
    then have "(?s + (a + ?n - ?s) mod ?n) mod ?n = a"
      using pos by simp
    then have "(i + 1 + (a + ?n - ?s) mod ?n) mod ?n = a"
      by (simp add: mod_add_left_eq)
    with a(2) show ?thesis by (simp add: P_def)
  qed
  then have ex: "\<exists>d. P d" by blast
  define d where "d = (LEAST d. P d)"
  have Pd: "P d" unfolding d_def using ex by (metis LeastI)
  have least: "\<forall>d'<d. \<not> P d'" unfolding d_def using not_less_Least by blast
  have dlt: "d < ?n"
  proof (rule ccontr)
    assume "\<not> d < ?n"
    then have "d - ?n < d" using pos by arith
    moreover have "P (d - ?n)"
    proof -
      have e: "i + 1 + d = (i + 1 + (d - ?n)) + ?n"
        using \<open>\<not> d < ?n\<close> by arith
      have "(i + 1 + d) mod ?n = (i + 1 + (d - ?n)) mod ?n"
        by (subst e) (rule mod_add_self2)
      with Pd show ?thesis
        unfolding P_def by simp
    qed
    ultimately show False using least by blast
  qed
  have s: "?s < ?n" using pos by (rule mod_less_divisor)
  have sh: "(?s + k) mod ?n = (i + 1 + k) mod ?n" for k
    by (simp add: mod_add_left_eq)
  have "nextLoop players ?s 0 = (?s + d) mod ?n"
  proof (rule nextLoop_least[OF s])
    show "ap_hand (players ! ((?s + d) mod ?n)) \<noteq> []"
      using Pd unfolding sh P_def .
    show "\<forall>d'<d. ap_hand (players ! ((?s + d') mod ?n)) = []"
      using least unfolding sh P_def by auto
    show "0 + d \<le> ?n" using dlt by simp
  qed
  moreover have "jsRem (int i + 1) ?n = int ((i + 1) mod ?n)"
    by (simp add: jsRem_def zmod_int add.commute)
  ultimately have r: "findNextPlayer players (int i) = Inr ((i + 1 + d) mod ?n)"
    using pos by (simp add: findNextPlayer_def mod_add_left_eq Let_def)
  have "(i + 1 + d) mod ?n < ?n" using pos by (rule mod_less_divisor)
  with r Pd least dlt show ?thesis
    unfolding P_def by blast
qed

lemma find_findIndex:
  "List.find P xs = (case findIndex P xs of None \<Rightarrow> None | Some i \<Rightarrow> Some (xs ! i))"
  by (induction xs) (auto split: option.splits)

lemma playCards_valid:
  "playCards state pid cards = Inr state' \<Longrightarrow> asshole_isValidPlay state pid cards"
  by (rule ccontr) (simp add: playCards_def)

lemma valid_nonempty: "asshole_isValidPlay state pid cards \<Longrightarrow> cards \<noteq> []"
  by (auto simp: asshole_isValidPlay_def split: option.splits)

lemma playCards_continue_eq:
  assumes valid: "asshole_isValidPlay state pid cards"
    and idx: "findIndex (\<lambda>p. ap_id p = pid) (as_players state) = Some i"
    and c: "cards = c0 # rest"
    and two: "\<not> length (filter (\<lambda>p. length (ap_hand p) > 0) (afterPlay state i cards)) \<le> 1"
  shows "playCards state pid cards =
     (case findNextPlayer (afterPlay state i cards) (int i) of
        Inl e \<Rightarrow> Inl e
      | Inr nextIndex \<Rightarrow>
          Inr (state\<lparr>as_players := afterPlay state i cards,
                     as_pile := as_pile state @ [cards],
                     as_lastPlayedBy := Some pid,
                     as_currentRank := (if getCardRank c0 = 15 then None else Some (getCardRank c0)),
                     as_currentCount := (if getCardRank c0 = 15 then 0 else length cards),
                     as_consecutivePasses := 0,
                     as_currentPlayerIndex := (if getCardRank c0 = 15 then i else nextIndex),
                     as_finishCount :=
                       (if length (ap_hand (afterPlay state i cards ! i)) = 0
                        then as_finishCount state + 1 else as_finishCount state)\<rparr>))"
proof -
  have i: "i < length (as_players state)"
    using findIndex_Some[OF idx] by blast
  show ?thesis
    using valid idx two unfolding c
    by (simp add: playCards_def Let_def)
qed

lemma map_hand_update_rank:
  "map ap_hand (xs[k := (xs ! k)\<lparr>ap_finishOrder := fo, ap_rank := r\<rparr>]) = map ap_hand xs"
proof (cases "k < length xs")
  case True
  then show ?thesis
    by (intro nth_equalityI) (auto simp: nth_list_update)
next
  case False
  then have "length xs \<le> k" by arith
  then show ?thesis by (simp only: list_update_beyond)
qed

lemma playCards_end_hands:
  assumes valid: "asshole_isValidPlay state pid cards"
    and idx: "findIndex (\<lambda>p. ap_id p = pid) (as_players state) = Some i"
    and c: "cards = c0 # rest"
    and one: "length (filter (\<lambda>p. length (ap_hand p) > 0) (afterPlay state i cards)) \<le> 1"
  shows "\<exists>st'. playCards state pid cards = Inr st'
           \<and> map ap_hand (as_players st') = map ap_hand (afterPlay state i cards)"
  using valid idx one unfolding c
  by (simp add: playCards_def Let_def map_hand_update_rank split: list.splits option.splits)

lemma count_holders:
  "length (filter (\<lambda>p. ap_hand p \<noteq> []) ps) = length (filter (\<lambda>h. h \<noteq> []) (map ap_hand ps))"
  by (simp add: filter_map comp_def)

text \<open>
  C1 (amended): for every state and every valid play after which at least two players
  still hold cards: a play whose rank is the top rank "2" clears the pile (\<open>currentRank\<close>
  reset to empty, \<open>currentCount\<close> reset to 0) and the player who played keeps the turn;
  every other valid play, the four cards of a rank included, sets the pile's rank and
  count to those of the play and passes the turn to the next player holding cards.
\<close>

theorem C1_turn_after_play:
  assumes res: "playCards state pid cards = Inr state'"
    and idx: "findIndex (\<lambda>p. ap_id p = pid) (as_players state) = Some i"
    and two: "2 \<le> length (filter (\<lambda>p. ap_hand p \<noteq> []) (as_players state'))"
  shows "(getCardRank (hd cards) = 15 \<longrightarrow>
            as_currentRank state' = None \<and> as_currentCount state' = 0
          \<and> as_currentPlayerIndex state' = i)
       \<and> (getCardRank (hd cards) \<noteq> 15 \<longrightarrow>
            as_currentRank state' = Some (getCardRank (hd cards))
          \<and> as_currentCount state' = length cards
          \<and> as_currentPlayerIndex state' < length (as_players state')
          \<and> ap_hand (as_players state' ! as_currentPlayerIndex state') \<noteq> []
          \<and> (\<exists>d<length (as_players state').
                as_currentPlayerIndex state' = (i + 1 + d) mod length (as_players state')
              \<and> (\<forall>d'<d. ap_hand (as_players state' ! ((i + 1 + d') mod length (as_players state')))
                         = [])))"
proof -
  let ?new = "afterPlay state i cards"
  have valid: "asshole_isValidPlay state pid cards"
    using res by (rule playCards_valid)
  then obtain c0 rest where c: "cards = c0 # rest"
    using valid_nonempty by (cases cards) auto
  have i: "i < length ?new"
    using findIndex_Some[OF idx] by (simp add: afterPlay_def Let_def)
  have cont: "\<not> length (filter (\<lambda>p. length (ap_hand p) > 0) ?new) \<le> 1"
  proof
    assume one: "length (filter (\<lambda>p. length (ap_hand p) > 0) ?new) \<le> 1"
    from playCards_end_hands[OF valid idx c one] res
    have "map ap_hand (as_players state') = map ap_hand ?new" by simp
    then have "length (filter (\<lambda>p. ap_hand p \<noteq> []) (as_players state'))
        = length (filter (\<lambda>p. ap_hand p \<noteq> []) ?new)"
      by (simp only: count_holders)
    with two one show False by simp
  qed
  then have "filter (\<lambda>p. length (ap_hand p) > 0) ?new \<noteq> []"
    by auto
  then obtain q where "q \<in> set ?new" "ap_hand q \<noteq> []"
    by (metis (mono_tags, lifting) filter_False length_greater_0_conv)
  then have act: "\<exists>a<length ?new. ap_hand (?new ! a) \<noteq> []"
    by (metis in_set_conv_nth)
  from findNextPlayer_next_holder[OF i act] obtain n d where
    nx: "findNextPlayer ?new (int i) = Inr n" and n: "n < length ?new" "ap_hand (?new ! n) \<noteq> []"
    and d: "d < length ?new" "n = (i + 1 + d) mod length ?new"
       "\<forall>d'<d. ap_hand (?new ! ((i + 1 + d') mod length ?new)) = []"
    by blast
  from playCards_continue_eq[OF valid idx c cont] res nx
  have st: "state' = state\<lparr>as_players := ?new,
                     as_pile := as_pile state @ [cards],
                     as_lastPlayedBy := Some pid,
                     as_currentRank := (if getCardRank c0 = 15 then None else Some (getCardRank c0)),
                     as_currentCount := (if getCardRank c0 = 15 then 0 else length cards),
                     as_consecutivePasses := 0,
                     as_currentPlayerIndex := (if getCardRank c0 = 15 then i else n),
                     as_finishCount :=
                       (if length (ap_hand (?new ! i)) = 0
                        then as_finishCount state + 1 else as_finishCount state)\<rparr>"
    by simp
  have hd: "hd cards = c0" by (simp add: c)
  have f: "as_players state' = ?new"
    "as_currentRank state' = (if getCardRank c0 = 15 then None else Some (getCardRank c0))"
    "as_currentCount state' = (if getCardRank c0 = 15 then 0 else length cards)"
    "as_currentPlayerIndex state' = (if getCardRank c0 = 15 then i else n)"
    by (simp_all add: st)
  show ?thesis
    unfolding hd f using n d by auto
qed

lemmas pres_eval = presExample_def presPlayer_def fourThrees_def createCard_def
  playCards_def asshole_isValidPlay_def afterPlay_def findNextPlayer_def jsRem_def nextLoop.simps
  getCardRank_def finishRank_def Let_def

text \<open>
  C1, as stated, fails: with an empty pile, player 0 plays the four threes; the pile is
  not cleared (rank 3, count 4) and the turn passes to player 1.
\<close>

theorem C1_counterexample:
  "asshole_isValidPlay presExample ''player-0'' fourThrees
   \<and> length fourThrees = 4
   \<and> as_currentPlayerIndex presExample = 0
   \<and> map_sum id (\<lambda>s. (as_currentRank s, as_currentCount s, as_currentPlayerIndex s))
        (playCards presExample ''player-0'' fourThrees) = Inr (Some 3, 4, 1)"
  by (simp add: pres_eval)

text \<open>
  C1 (amended) at the sample state: player 1 plays the two of spades; the pile is cleared
  and player 1 keeps the turn.
\<close>

theorem C1_turn_after_play_witness:
  "\<exists>st'. playCards presExample ''player-1'' [createCard spades R2 ''s2''] = Inr st'
     \<and> getCardRank (hd [createCard spades R2 ''s2'']) = 15
     \<and> 2 \<le> length (filter (\<lambda>p. ap_hand p \<noteq> []) (as_players st'))
     \<and> as_currentRank st' = None \<and> as_currentCount st' = 0 \<and> as_currentPlayerIndex st' = 1"
proof -
  have "\<exists>st'. playCards presExample ''player-1'' [createCard spades R2 ''s2''] = Inr st'
      \<and> 2 \<le> length (filter (\<lambda>p. ap_hand p \<noteq> []) (as_players st'))"
    by (simp add: pres_eval)
  then obtain st' where r: "playCards presExample ''player-1'' [createCard spades R2 ''s2''] = Inr st'"
    and two: "2 \<le> length (filter (\<lambda>p. ap_hand p \<noteq> []) (as_players st'))"
    by blast
  have idx: "findIndex (\<lambda>p. ap_id p = ''player-1'') (as_players presExample) = Some 1"
    by (simp add: presExample_def presPlayer_def)
  have k: "getCardRank (hd [createCard spades R2 ''s2'']) = 15"
    by (simp add: getCardRank_def createCard_def)
  from C1_turn_after_play [OF r idx two] k
  have "as_currentRank st' = None \<and> as_currentCount st' = 0 \<and> as_currentPlayerIndex st' = 1"
    by blast
  with r two k show ?thesis by blast
qed

subsection \<open>President: enumeration of the valid plays\<close>

lemma subseq_Cons_right:
  "subseq s (c # rest) \<longleftrightarrow> subseq s rest \<or> (\<exists>s'. s = c # s' \<and> subseq s' rest)"
proof (cases s)
  case Nil
  then show ?thesis by simp
next
  case (Cons a s')
  show ?thesis
  proof (cases "a = c")
    case True
    with Cons show ?thesis
      using subseq_Cons' by auto
  next
    case False
    with Cons show ?thesis by auto
  qed
qed

lemma combine_iff:
  "length cur \<le> k \<Longrightarrow>
   x \<in> set (combine k cur rest)
     \<longleftrightarrow> (\<exists>s. x = cur @ s \<and> subseq s rest \<and> length cur + length s = k)"
proof (induction rest arbitrary: cur)
  case Nil
  then show ?case by auto
next
  case (Cons c rest)
  show ?case
  proof (cases "length cur = k")
    case True
    then show ?thesis by auto
  next
    case False
    with Cons.prems have lt: "length (cur @ [c]) \<le> k" "length cur \<le> k"
      by simp_all
    have "x \<in> set (combine k cur (c # rest))
        \<longleftrightarrow> x \<in> set (combine k (cur @ [c]) rest) \<or> x \<in> set (combine k cur rest)"
      using False by simp
    also have "\<dots> \<longleftrightarrow> (\<exists>s. x = (cur @ [c]) @ s \<and> subseq s rest \<and> length (cur @ [c]) + length s = k)
        \<or> (\<exists>s. x = cur @ s \<and> subseq s rest \<and> length cur + length s = k)"
      by (simp only: Cons.IH[OF lt(1)] Cons.IH[OF lt(2)])
    also have "\<dots> \<longleftrightarrow> (\<exists>s. x = cur @ s \<and> subseq s (c # rest) \<and> length cur + length s = k)"
      (is "?L \<longleftrightarrow> ?R")
    proof
      assume ?L
      then show ?R
      proof
        assume "\<exists>s. x = (cur @ [c]) @ s \<and> subseq s rest \<and> length (cur @ [c]) + length s = k"
        then obtain s where "x = cur @ (c # s)" "subseq s rest" "length cur + length (c # s) = k"
          by auto
        then show ?R
          using subseq_Cons2 by blast
      next
        assume "\<exists>s. x = cur @ s \<and> subseq s rest \<and> length cur + length s = k"
        then show ?R
          by (auto simp: subseq_Cons_right)
      qed
    next
      assume ?R
      then obtain s where s: "x = cur @ s" "subseq s (c # rest)" "length cur + length s = k"
        by blast
      from s(2) consider "subseq s rest" | s' where "s = c # s'" "subseq s' rest"
        by (auto simp: subseq_Cons_right)
      then show ?L
      proof cases
        case 1
        with s show ?thesis by blast
      next
        case 2
        with s have "x = (cur @ [c]) @ s'" "length (cur @ [c]) + length s' = k"
          by simp_all
        with 2 show ?thesis by blast
      qed
    qed
    finally show ?thesis .
  qed
qed

lemma getCombinations_iff:
  "x \<in> set (asshole_getCombinations cards k) \<longleftrightarrow> subseq x cards \<and> length x = k"
proof -
  consider "k > length cards" | "k = length cards" | "k < length cards" "k = 1"
    | "k < length cards" "k \<noteq> 1"
    by linarith
  then show ?thesis
  proof cases
    case 1
    then show ?thesis
      using list_emb_length[of "(=)" x cards] by (auto simp: asshole_getCombinations_def)
  next
    case 2
    then show ?thesis
      using subseq_same_length[of x cards] by (auto simp: asshole_getCombinations_def)
  next
    case 3
    have "subseq x cards \<and> length x = 1 \<longleftrightarrow> (\<exists>c\<in>set cards. x = [c])"
      by (cases x) (auto simp: subseq_singleton_left)
    with 3 show ?thesis
      by (auto simp: asshole_getCombinations_def)
  next
    case 4
    then show ?thesis
      using combine_iff[of "[]" k x cards] by (auto simp: asshole_getCombinations_def)
  qed
qed

lemma addToGroup_keys:
  "map fst (addToGroup gs c) =
     (if getCardRank c \<in> set (map fst gs) then map fst gs else map fst gs @ [getCardRank c])"
proof (induction gs)
  case Nil
  show ?case by simp
next
  case (Cons g gs)
  obtain r0 cs0 where g: "g = (r0, cs0)" by (cases g)
  show ?case
  proof (cases "r0 = getCardRank c")
    case True
    then show ?thesis by (simp add: g)
  next
    case False
    with Cons.IH show ?thesis by (simp add: g)
  qed
qed

lemma addToGroup_set:
  "distinct (map fst gs) \<Longrightarrow>
   (r, cs) \<in> set (addToGroup gs c) \<longleftrightarrow>
     (if r = getCardRank c
      then (\<exists>cs0. (r, cs0) \<in> set gs \<and> cs = cs0 @ [c]) \<or> (r \<notin> fst ` set gs \<and> cs = [c])
      else (r, cs) \<in> set gs)"
proof (induction gs)
  case Nil
  then show ?case by auto
next
  case (Cons g gs)
  obtain r0 cs0 where g: "g = (r0, cs0)" by (cases g)
  from Cons.prems have d: "distinct (map fst gs)" and nin: "r0 \<notin> fst ` set gs"
    by (simp_all add: g)
  show ?case
  proof (cases "r0 = getCardRank c")
    case True
    with nin show ?thesis
      by (auto simp: g image_iff)
  next
    case False
    with Cons.IH[OF d] show ?thesis
      by (auto simp: g)
  qed
qed

lemma addToGroup_invariant:
  assumes d: "distinct (map fst gs)"
    and inv: "\<forall>r cs. (r, cs) \<in> set gs \<longleftrightarrow> cs = filter (\<lambda>c. getCardRank c = r) hand \<and> cs \<noteq> []"
  shows "distinct (map fst (addToGroup gs c))
       \<and> (\<forall>r cs. (r, cs) \<in> set (addToGroup gs c)
             \<longleftrightarrow> cs = filter (\<lambda>c. getCardRank c = r) (hand @ [c]) \<and> cs \<noteq> [])"
proof (intro conjI allI)
  show "distinct (map fst (addToGroup gs c))"
    using d by (simp add: addToGroup_keys)
next
  fix r cs
  have invr: "(r, cs) \<in> set gs \<longleftrightarrow> cs = filter (\<lambda>c. getCardRank c = r) hand \<and> cs \<noteq> []" for r cs
    using inv by (rule allE) (erule allE)
  have keys: "r \<in> fst ` set gs \<longleftrightarrow> filter (\<lambda>c. getCardRank c = r) hand \<noteq> []" for r
  proof
    assume "r \<in> fst ` set gs"
    then obtain cs0 where "(r, cs0) \<in> set gs" by auto
    then show "filter (\<lambda>c. getCardRank c = r) hand \<noteq> []"
      unfolding invr by (elim conjE) simp
  next
    assume "filter (\<lambda>c. getCardRank c = r) hand \<noteq> []"
    then have "(r, filter (\<lambda>c. getCardRank c = r) hand) \<in> set gs"
      by (simp add: invr)
    then show "r \<in> fst ` set gs" by (rule image_eqI[rotated]) simp
  qed
  show "(r, cs) \<in> set (addToGroup gs c)
      \<longleftrightarrow> cs = filter (\<lambda>c. getCardRank c = r) (hand @ [c]) \<and> cs \<noteq> []"
  proof (cases "r = getCardRank c")
    case True
    have "(r, cs) \<in> set (addToGroup gs c) \<longleftrightarrow>
        (\<exists>cs0. (r, cs0) \<in> set gs \<and> cs = cs0 @ [c]) \<or> (r \<notin> fst ` set gs \<and> cs = [c])"
      using addToGroup_set[OF d, of r cs c] True by simp
    also have "\<dots> \<longleftrightarrow> cs = filter (\<lambda>c. getCardRank c = r) hand @ [c]"
    proof (cases "filter (\<lambda>c. getCardRank c = r) hand = []")
      case True
      then show ?thesis by (simp add: keys invr)
    next
      case False
      then show ?thesis by (simp add: keys invr)
    qed
    finally show ?thesis using True by auto
  next
    case False
    then have "(r, cs) \<in> set (addToGroup gs c) \<longleftrightarrow> (r, cs) \<in> set gs"
      using addToGroup_set[OF d, of r cs c] by simp
    with False show ?thesis by (simp add: invr)
  qed
qed

lemma foldl_addToGroup_invariant:
  assumes "distinct (map fst gs)"
    and "\<forall>r cs. (r, cs) \<in> set gs \<longleftrightarrow> cs = filter (\<lambda>c. getCardRank c = r) hand \<and> cs \<noteq> []"
  shows "\<forall>r cs. (r, cs) \<in> set (foldl addToGroup gs xs)
             \<longleftrightarrow> cs = filter (\<lambda>c. getCardRank c = r) (hand @ xs) \<and> cs \<noteq> []"
  using assms
proof (induction xs arbitrary: gs hand)
  case Nil
  then show ?case by simp
next
  case (Cons x xs)
  from addToGroup_invariant[OF Cons.prems, of x]
  have a: "distinct (map fst (addToGroup gs x))"
    and b: "\<forall>r cs. (r, cs) \<in> set (addToGroup gs x)
             \<longleftrightarrow> cs = filter (\<lambda>c. getCardRank c = r) (hand @ [x]) \<and> cs \<noteq> []"
    by blast+
  from Cons.IH[OF a b] show ?case by simp
qed

lemma cardsByRank_groups:
  "(r, cs) \<in> set (foldl addToGroup [] hand)
     \<longleftrightarrow> cs = filter (\<lambda>c. getCardRank c = r) hand \<and> cs \<noteq> []"
  using foldl_addToGroup_invariant[of "[]" "[]" hand] by simp

lemma subseq_subset: "subseq xs ys \<Longrightarrow> set xs \<subseteq> set ys"
  by (auto elim: list_emb_set)

lemma subseq_filter_iff:
  "subseq x (filter P hand) \<longleftrightarrow> subseq x hand \<and> (\<forall>c\<in>set x. P c)"
proof
  assume a: "subseq x (filter P hand)"
  have "subseq (filter P hand) hand" by (rule subseq_filter_left)
  with a have "subseq x hand" by (rule subseq_order.trans)
  moreover have "set x \<subseteq> set (filter P hand)"
    using a by (rule subseq_subset)
  ultimately show "subseq x hand \<and> (\<forall>c\<in>set x. P c)" by auto
next
  assume a: "subseq x hand \<and> (\<forall>c\<in>set x. P c)"
  then have "subseq x hand" by (rule conjunct1)
  then have "subseq (filter P x) (filter P hand)" by (rule subseq_filter)
  moreover have "filter P x = x" using a by (simp add: filter_id_conv)
  ultimately show "subseq x (filter P hand)" by simp
qed

lemma isValidPlay_iff:
  assumes "List.find (\<lambda>p. ap_id p = pid) (as_players state) = Some player"
  shows "asshole_isValidPlay state pid x \<longleftrightarrow>
     x \<noteq> [] \<and> (\<forall>c\<in>set x. getCardRank c = getCardRank (hd x))
     \<and> (\<forall>c\<in>set x. \<exists>h\<in>set (ap_hand player). cid h = cid c)
     \<and> (case as_currentRank state of
          None \<Rightarrow> True
        | Some cr \<Rightarrow> length x = as_currentCount state \<and> getCardRank (hd x) > cr)"
proof (cases x)
  case Nil
  then show ?thesis by (simp add: asshole_isValidPlay_def assms)
next
  case (Cons c0 rest)
  show ?thesis
  proof (cases "as_currentRank state")
    case None
    then show ?thesis
      unfolding Cons by (simp add: asshole_isValidPlay_def assms Let_def list_all_iff list_ex_iff)
  next
    case (Some cr)
    then show ?thesis
      unfolding Cons by (simp add: asshole_isValidPlay_def assms Let_def list_all_iff list_ex_iff)
  qed
qed

lemma in_concat_groups:
  "x \<in> set (concat (map (\<lambda>(r, cs). F r cs) gs)) \<longleftrightarrow> (\<exists>r cs. (r, cs) \<in> set gs \<and> x \<in> set (F r cs))"
  by (induction gs) auto

lemma combos_all_sizes:
  "x \<in> set (concat (map (\<lambda>i. asshole_getCombinations cs i) [1 ..< length cs + 1]))
     \<longleftrightarrow> subseq x cs \<and> 1 \<le> length x"
proof
  assume "x \<in> set (concat (map (\<lambda>i. asshole_getCombinations cs i) [1 ..< length cs + 1]))"
  then obtain i where "1 \<le> i" "x \<in> set (asshole_getCombinations cs i)"
    by auto
  then show "subseq x cs \<and> 1 \<le> length x"
    by (simp add: getCombinations_iff)
next
  assume a: "subseq x cs \<and> 1 \<le> length x"
  then have "length x \<le> length cs"
    using list_emb_length by blast
  with a have "length x \<in> set [1 ..< length cs + 1]" "x \<in> set (asshole_getCombinations cs (length x))"
    by (auto simp: getCombinations_iff)
  then show "x \<in> set (concat (map (\<lambda>i. asshole_getCombinations cs i) [1 ..< length cs + 1]))"
    unfolding set_concat set_map by blast
qed

lemma combos_beating:
  "x \<in> set (if r > cr \<and> length cs \<ge> n then asshole_getCombinations cs n else [])
     \<longleftrightarrow> r > cr \<and> subseq x cs \<and> length x = n"
proof (cases "r > cr \<and> length cs \<ge> n")
  case True
  then show ?thesis by (simp add: getCombinations_iff)
next
  case False
  have "subseq x cs \<Longrightarrow> length x \<le> length cs"
    by (rule list_emb_length)
  with False show ?thesis by auto
qed

lemma getValidPlays_None:
  assumes "List.find (\<lambda>p. ap_id p = pid) (as_players state) = Some player"
    and "as_currentRank state = None"
  shows "x \<in> set (asshole_getValidPlays state pid) \<longleftrightarrow>
     (\<exists>r. filter (\<lambda>c. getCardRank c = r) (ap_hand player) \<noteq> []
          \<and> subseq x (filter (\<lambda>c. getCardRank c = r) (ap_hand player)) \<and> 1 \<le> length x)"
proof -
  let ?gs = "foldl addToGroup [] (ap_hand player)"
  have "x \<in> set (asshole_getValidPlays state pid) \<longleftrightarrow>
      (\<exists>r cs. (r, cs) \<in> set ?gs
         \<and> x \<in> set (concat (map (\<lambda>i. asshole_getCombinations cs i) [1 ..< length cs + 1])))"
    unfolding asshole_getValidPlays_def assms Let_def option.case
    by (rule in_concat_groups)
  also have "\<dots> \<longleftrightarrow> (\<exists>r cs. (r, cs) \<in> set ?gs \<and> subseq x cs \<and> 1 \<le> length x)"
    by (simp only: combos_all_sizes)
  also have "\<dots> \<longleftrightarrow> (\<exists>r. filter (\<lambda>c. getCardRank c = r) (ap_hand player) \<noteq> []
          \<and> subseq x (filter (\<lambda>c. getCardRank c = r) (ap_hand player)) \<and> 1 \<le> length x)"
    by (simp only: cardsByRank_groups) auto
  finally show ?thesis .
qed

lemma getValidPlays_Some:
  assumes "List.find (\<lambda>p. ap_id p = pid) (as_players state) = Some player"
    and "as_currentRank state = Some cr"
  shows "x \<in> set (asshole_getValidPlays state pid) \<longleftrightarrow>
     (\<exists>r. filter (\<lambda>c. getCardRank c = r) (ap_hand player) \<noteq> [] \<and> r > cr
          \<and> subseq x (filter (\<lambda>c. getCardRank c = r) (ap_hand player))
          \<and> length x = as_currentCount state)"
proof -
  let ?gs = "foldl addToGroup [] (ap_hand player)"
  have "x \<in> set (asshole_getValidPlays state pid) \<longleftrightarrow>
      (\<exists>r cs. (r, cs) \<in> set ?gs
         \<and> x \<in> set (if r > cr \<and> length cs \<ge> as_currentCount state
                      then asshole_getCombinations cs (as_currentCount state) else []))"
    unfolding asshole_getValidPlays_def assms Let_def option.case
    by (rule in_concat_groups)
  also have "\<dots> \<longleftrightarrow> (\<exists>r cs. (r, cs) \<in> set ?gs \<and> r > cr \<and> subseq x cs
        \<and> length x = as_currentCount state)"
    by (simp only: combos_beating)
  also have "\<dots> \<longleftrightarrow> (\<exists>r. filter (\<lambda>c. getCardRank c = r) (ap_hand player) \<noteq> [] \<and> r > cr
          \<and> subseq x (filter (\<lambda>c. getCardRank c = r) (ap_hand player))
          \<and> length x = as_currentCount state)"
    by (simp only: cardsByRank_groups) auto
  finally show ?thesis .
qed

text \<open>
  The pile of a fresh game is empty, and a play keeps the property that a pile with a
  rank has a count of at least one.
\<close>

lemma createAssholeGame_pile:
  "as_currentRank (createAssholeGame uuid rnd playerNames playerTypes) = None"
  by (simp add: createAssholeGame_def Let_def)

lemma playCards_end_pile:
  assumes valid: "asshole_isValidPlay state pid cards"
    and idx: "findIndex (\<lambda>p. ap_id p = pid) (as_players state) = Some i"
    and c: "cards = c0 # rest"
    and one: "length (filter (\<lambda>p. length (ap_hand p) > 0) (afterPlay state i cards)) \<le> 1"
  shows "\<exists>st'. playCards state pid cards = Inr st'
           \<and> as_currentRank st' = as_currentRank state
           \<and> as_currentCount st' = as_currentCount state"
  using valid idx one unfolding c
  by (simp add: playCards_def Let_def)

lemma playCards_pile:
  assumes res: "playCards state pid cards = Inr state'"
    and wf: "as_currentRank state = None \<or> 1 \<le> as_currentCount state"
  shows "as_currentRank state' = None \<or> 1 \<le> as_currentCount state'"
proof -
  have valid: "asshole_isValidPlay state pid cards"
    using res by (rule playCards_valid)
  then obtain c0 rest where c: "cards = c0 # rest"
    using valid_nonempty by (cases cards) auto
  obtain i where idx: "findIndex (\<lambda>p. ap_id p = pid) (as_players state) = Some i"
    using valid by (auto simp: asshole_isValidPlay_def find_findIndex split: option.splits)
  show ?thesis
  proof (cases "length (filter (\<lambda>p. length (ap_hand p) > 0) (afterPlay state i cards)) \<le> 1")
    case True
    from playCards_end_pile[OF valid idx c True] res wf show ?thesis
      by auto
  next
    case False
    from playCards_continue_eq[OF valid idx c False] res show ?thesis
      by (cases "getCardRank c0 = 15") (auto simp: c split: sum.splits)
  qed
qed

lemma pass_pile:
  assumes "asshole_pass state pid = Inr state'"
    and "as_currentRank state = None \<or> 1 \<le> as_currentCount state"
  shows "as_currentRank state' = None \<or> 1 \<le> as_currentCount state'"
  using assms unfolding asshole_pass_def Let_def
  by (auto split: option.splits if_splits sum.splits)

lemma startNewRound_pile: "as_currentRank (asshole_startNewRound uuid rnd state) = None"
  by (simp add: asshole_startNewRound_def Let_def)

lemma presidentState_pile:
  "presidentState state \<Longrightarrow> as_currentRank state = None \<or> 1 \<le> as_currentCount state"
proof (induction rule: presidentState.induct)
  case (created uuid rnd playerNames playerTypes)
  show ?case by (simp add: createAssholeGame_pile)
next
  case (played s pid cards s')
  then show ?case by (rule_tac playCards_pile)
next
  case (passed s pid s')
  then show ?case by (rule_tac pass_pile)
next
  case (newRound s uuid rnd)
  show ?case by (simp add: startNewRound_pile)
qed

text \<open>
  C9: \<open>getValidPlays\<close> is sound and complete with respect to \<open>isValidPlay\<close>. In every
  state whose pile, when not empty, records a count of at least one card (as every state
  the engine builds does), for every player: each play returned is a selection of cards
  of the player's hand (in hand order), all of one rank, that satisfies \<open>isValidPlay\<close>;
  and every selection of cards of the hand, of every size, that satisfies \<open>isValidPlay\<close>
  (and is therefore of one rank) is in the returned list.
\<close>

theorem C9_getValidPlays_sound_complete:
  assumes wf: "as_currentRank state = None \<or> 1 \<le> as_currentCount state"
    and player: "List.find (\<lambda>p. ap_id p = pid) (as_players state) = Some player"
  shows "(\<forall>play\<in>set (asshole_getValidPlays state pid).
            subseq play (ap_hand player)
          \<and> (\<forall>c\<in>set play. getCardRank c = getCardRank (hd play))
          \<and> asshole_isValidPlay state pid play)
       \<and> (\<forall>play. subseq play (ap_hand player) \<and> asshole_isValidPlay state pid play
            \<longrightarrow> play \<in> set (asshole_getValidPlays state pid))"
proof (rule conjI; rule ballI allI)
  fix play
  assume mem: "play \<in> set (asshole_getValidPlays state pid)"
  have "\<exists>r. subseq play (filter (\<lambda>c. getCardRank c = r) (ap_hand player)) \<and> 1 \<le> length play
      \<and> (case as_currentRank state of None \<Rightarrow> True
          | Some cr \<Rightarrow> length play = as_currentCount state \<and> r > cr)"
  proof (cases "as_currentRank state")
    case None
    with mem show ?thesis
      by (auto simp: getValidPlays_None[OF player None])
  next
    case (Some cr)
    with wf have "1 \<le> as_currentCount state" by simp
    with mem Some show ?thesis
      by (auto simp: getValidPlays_Some[OF player Some])
  qed
  then obtain r where r: "subseq play (filter (\<lambda>c. getCardRank c = r) (ap_hand player))"
    and ne: "1 \<le> length play"
    and beat: "case as_currentRank state of None \<Rightarrow> True
          | Some cr \<Rightarrow> length play = as_currentCount state \<and> r > cr"
    by blast
  from r have sub: "subseq play (ap_hand player)" and same: "\<forall>c\<in>set play. getCardRank c = r"
    by (simp_all add: subseq_filter_iff)
  from ne have nonempty: "play \<noteq> []" by auto
  then have "hd play \<in> set play" by simp
  with same have hd: "getCardRank (hd play) = r" by blast
  have ids: "\<forall>c\<in>set play. \<exists>h\<in>set (ap_hand player). cid h = cid c"
    using subseq_subset[OF sub] by blast
  have s2: "\<forall>c\<in>set play. getCardRank c = getCardRank (hd play)"
    using same hd by simp
  have "asshole_isValidPlay state pid play"
    unfolding isValidPlay_iff[OF player]
    using nonempty same hd ids beat by (auto split: option.splits)
  with sub s2 show "subseq play (ap_hand player)
          \<and> (\<forall>c\<in>set play. getCardRank c = getCardRank (hd play))
          \<and> asshole_isValidPlay state pid play"
    by (intro conjI)
next
  fix play
  show "subseq play (ap_hand player) \<and> asshole_isValidPlay state pid play
            \<longrightarrow> play \<in> set (asshole_getValidPlays state pid)"
  proof
  assume a: "subseq play (ap_hand player) \<and> asshole_isValidPlay state pid play"
  then have sub: "subseq play (ap_hand player)"
    by (rule conjunct1)
  from a have "asshole_isValidPlay state pid play"
    by (rule conjunct2)
  then have u: "play \<noteq> [] \<and> (\<forall>c\<in>set play. getCardRank c = getCardRank (hd play))
     \<and> (\<forall>c\<in>set play. \<exists>h\<in>set (ap_hand player). cid h = cid c)
     \<and> (case as_currentRank state of
          None \<Rightarrow> True
        | Some cr \<Rightarrow> length play = as_currentCount state \<and> getCardRank (hd play) > cr)"
    unfolding isValidPlay_iff[OF player] .
  from u have nonempty: "play \<noteq> []"
    by (rule conjunct1)
  from u have same: "\<forall>c\<in>set play. getCardRank c = getCardRank (hd play)"
    by (rule conjunct2[THEN conjunct1])
  from u have beat: "case as_currentRank state of None \<Rightarrow> True
        | Some cr \<Rightarrow> length play = as_currentCount state \<and> getCardRank (hd play) > cr"
    by (rule conjunct2[THEN conjunct2, THEN conjunct2])
  let ?r = "getCardRank (hd play)"
  have grp: "subseq play (filter (\<lambda>c. getCardRank c = ?r) (ap_hand player))"
    unfolding subseq_filter_iff using sub same by (rule conjI)
  have gne: "filter (\<lambda>c. getCardRank c = ?r) (ap_hand player) \<noteq> []"
  proof
    assume "filter (\<lambda>c. getCardRank c = ?r) (ap_hand player) = []"
    with grp have "play = []" by simp
    with nonempty show False by simp
  qed
  have len: "1 \<le> length play"
    using nonempty by (cases play) simp_all
  show "play \<in> set (asshole_getValidPlays state pid)"
  proof (cases "as_currentRank state")
    case None
    show ?thesis
      unfolding getValidPlays_None[OF player None] using grp gne len by blast
  next
    case (Some cr)
    with beat have "length play = as_currentCount state" "?r > cr" by simp_all
    then show ?thesis
      unfolding getValidPlays_Some[OF player Some] using grp gne by blast
  qed
  qed
qed

text \<open>
  C9 at the sample state: against a single seven, the nine of spades of player 0 is a
  valid play and is in the list returned for player 0.
\<close>

theorem C9_getValidPlays_sound_complete_witness:
  "as_currentRank presExample2 = Some 7 \<and> as_currentCount presExample2 = 1
   \<and> asshole_isValidPlay presExample2 ''player-0'' [createCard spades R9 ''s9'']
   \<and> [createCard spades R9 ''s9''] \<in> set (asshole_getValidPlays presExample2 ''player-0'')"
proof -
  let ?p = "\<lparr>ap_id = ''player-0'', ap_name = ''You'', ap_type = human,
         ap_hand = [createCard hearts R5 ''h5'', createCard clubs R9 ''c9'',
                    createCard spades R9 ''s9''],
         ap_rank = None, ap_finishOrder = None, ap_hasPassed = False\<rparr>"
  have wf: "as_currentRank presExample2 = None \<or> 1 \<le> as_currentCount presExample2"
    by (simp add: presExample2_def)
  have pl: "List.find (\<lambda>p. ap_id p = ''player-0'') (as_players presExample2) = Some ?p"
    by (simp add: presExample2_def)
  have sub: "subseq [createCard spades R9 ''s9''] (ap_hand ?p)"
    by (simp add: createCard_def)
  have v: "asshole_isValidPlay presExample2 ''player-0'' [createCard spades R9 ''s9'']"
    by (simp add: presExample2_def asshole_isValidPlay_def getCardRank_def createCard_def)
  have "[createCard spades R9 ''s9''] \<in> set (asshole_getValidPlays presExample2 ''player-0'')"
    using C9_getValidPlays_sound_complete [OF wf pl, THEN conjunct2, rule_format,
        of "[createCard spades R9 ''s9'']"] sub v
    by (rule_tac mp) simp_all
  with v show ?thesis
    by (simp add: presExample2_def)
qed

subsection \<open>Poker: the hand evaluator\<close>

lemma royal_values: "map val (sort_key (\<lambda>c. - val c) royalHand) = [13, 12, 11, 10, 1]"
  by (simp add: royalHand_def createCard_def)














subsection \<open>Poker: the last player standing\<close>

text \<open>
  When exactly one player has not folded, \<open>advanceAction\<close> ends the hand without a
  showdown evaluation and names that player the winner of the whole pot, but it returns
  the players as they are: nobody's chips change.
\<close>

lemma advanceAction_last_player:
  assumes "filter (\<lambda>p. \<not> pp_hasFolded p) (ps_players state) = [w]"
  shows "advanceAction state =
     Some (Inr (state\<lparr>ps_phase := P_showdown,
                      ps_winners := Some [\<lparr>w_playerId = pp_id w, w_amount = ps_pot state,
                                           w_hand = ''Last player standing''\<rparr>]\<rparr>))"
  by (simp add: advanceAction_def assms Let_def)

lemma advanceAction_last_player_chips:
  assumes "filter (\<lambda>p. \<not> pp_hasFolded p) (ps_players state) = [w]"
    and "advanceAction state = Some (Inr state')"
  shows "map pp_chips (ps_players state') = map pp_chips (ps_players state)"
  using assms(2) unfolding advanceAction_last_player[OF assms(1)] by auto

text \<open>
  The sibling path: after a showdown \<open>determineWinner\<close> does add the winners' share of
  the pot to their chips.
\<close>

lemma determineWinner_awards:
  assumes "determineWinner state = Inr state'"
  shows "\<exists>winners :: (PokerPlayer \<times> HandEvaluation) list.
       winners \<noteq> [] \<and> ps_phase state' = P_finished
     \<and> map pp_chips (ps_players state') =
         map (\<lambda>p. pp_chips p +
                (if list_ex (\<lambda>w. pp_id (fst w) = pp_id p) winners
                 then ps_pot state div int (length winners) else 0))
             (ps_players state)"
proof -
  let ?act = "filter (\<lambda>p. \<not> pp_hasFolded p) (ps_players state)"
  obtain evals where e: "evaluations (ps_communityCards state) ?act = Inr evals"
    using assms by (cases "evaluations (ps_communityCards state) ?act")
      (simp_all add: determineWinner_def)
  obtain sorted where so: "sortEvals evals = Inr sorted"
    using assms by (cases "sortEvals evals") (simp_all add: determineWinner_def e)
  obtain best others where bo: "sorted = best # others"
    using assms by (cases sorted) (simp_all add: determineWinner_def e so)
  obtain winners where w: "filterTies (snd best) (best # others) = Inr winners"
    using assms by (cases "filterTies (snd best) (best # others)")
      (simp_all add: determineWinner_def e so bo del: filterTies.simps)
  have st: "state' = state\<lparr>
                      ps_phase := P_finished,
                      ps_winners := Some (map (\<lambda>w. \<lparr>w_playerId = pp_id (fst w),
                                                     w_amount = ps_pot state div int (length winners),
                                                     w_hand = he_description (snd w)\<rparr>) winners),
                      ps_players := map (\<lambda>p.
                          let isWinner = list_ex (\<lambda>w. pp_id (fst w) = pp_id p) winners in
                          p\<lparr>pp_chips := pp_chips p
                                 + (if isWinner then ps_pot state div int (length winners) else 0),
                            pp_hand := map (\<lambda>c. c\<lparr>faceUp := True\<rparr>) (pp_hand p)\<rparr>)
                        (ps_players state)\<rparr>"
    using assms by (simp add: determineWinner_def e so bo w Let_def del: filterTies.simps)
  have self: "compareHands (snd best) (snd best) = Inr 0 \<or> (\<exists>e. compareHands (snd best) (snd best) = Inl e)"
  proof -
    have "kickerLoop n cs cs = Inr 0 \<or> (\<exists>e. kickerLoop n cs cs = Inl e)" for n cs
    proof (induction n arbitrary: cs)
      case 0
      show ?case by simp
    next
      case (Suc n)
      show ?case
      proof (cases cs)
        case Nil
        then show ?thesis by simp
      next
        case (Cons c cs')
        with Suc.IH[of cs'] show ?thesis by simp
      qed
    qed
    then show ?thesis by (simp add: compareHands_def)
  qed
  have ne: "winners \<noteq> []"
  proof (cases "compareHands (snd best) (snd best)")
    case (Inl err)
    with w show ?thesis by simp
  next
    case (Inr d)
    with self have d: "compareHands (snd best) (snd best) = Inr 0" by simp
    show ?thesis
    proof (cases "filterTies (snd best) others")
      case (Inl err)
      with w d show ?thesis by simp
    next
      case (Inr r)
      with w d show ?thesis by auto
    qed
  qed
  have ph: "ps_phase state' = P_finished"
    by (simp add: st)
  have ch: "map pp_chips (ps_players state') =
         map (\<lambda>p. pp_chips p +
                (if list_ex (\<lambda>w. pp_id (fst w) = pp_id p) winners
                 then ps_pot state div int (length winners) else 0))
             (ps_players state)"
    by (simp add: st Let_def comp_def)
  show ?thesis
    by (rule exI[of _ winners]) (intro conjI ne ph ch)
qed

text \<open>
  C4 at a concrete hand: two players, pot 30; player 0 folds. The hand ends at once with
  player 1 named winner of 30, and player 1 still has 980 chips, not 1010.
\<close>

theorem C4_fold_awards_no_chips:
  "poker_fold pokerExample ''player-0'' =
     Some (Inr (pokerExample\<lparr>
       ps_players :=
         [(pokerPlayer ''player-0'' 990 10 [createCard hearts R2 ''h2'', createCard clubs R7 ''c7''])
            \<lparr>pp_hasFolded := True, pp_hasActed := True\<rparr>,
          pokerPlayer ''player-1'' 980 20 [createCard spades RA ''sa'', createCard spades RK ''sk'']],
       ps_phase := P_showdown,
       ps_winners := Some [\<lparr>w_playerId = ''player-1'', w_amount = 30,
                            w_hand = ''Last player standing''\<rparr>]\<rparr>))
   \<and> pp_chips (ps_players pokerExample ! 1) = 980
   \<and> map_option (map_sum id (\<lambda>s. pp_chips (ps_players s ! 1)))
        (poker_fold pokerExample ''player-0'') = Some (Inr 980)"
  by (simp add: poker_fold_def advanceAction_def pokerExample_def pokerPlayer_def Let_def)

subsection \<open>President: the cards of a fresh game\<close>















text \<open>
  Cards also leave the state during play: when the passes clear the pile, the cards of
  the pile are in no hand and no pile any more. At the sample state, where a seven lies
  on the pile, the pass of player 0 empties the pile and gives the lead to player 1.
\<close>

lemma pass_empties_pile:
  "as_pile presExample2 = [[createCard diamonds R7 ''d7'']]
   \<and> map_sum id (\<lambda>s. (as_pile s, as_currentRank s, as_currentPlayerIndex s,
                         map ap_hand (as_players s)))
        (asshole_pass presExample2 ''player-0'')
       = Inr ([], None, 1, map ap_hand (as_players presExample2))"
  by (simp add: presExample2_def asshole_pass_def findNextPlayer_def jsRem_def nextLoop.simps
      Let_def)




end
